theory Spec2Isabelle
  imports Complex_Main "HOL-Library.Sublist"
begin

section \<open>Python values, exceptions and outcomes\<close>

text \<open>
  The module \<^verbatim>\<open>tools/batch_style.py\<close> is a thin layer over Pillow, tifffile, torch and the
  \<^verbatim>\<open>StyleTransfer\<close> class.  The embedding keeps the module's own control flow and takes
  every library call as a field of an environment record; a library call either returns a
  value or raises an exception.  Everything the module does to the outside (printing,
  writing files, calling the colour engine, calling the stylizer) is appended to a trace.
  \<open>Print_traceback\<close> is the traceback the interpreter prints on the error stream for an
  exception that nothing caught.
\<close>

text \<open>The exception classes that occur in the module or are raised by the libraries it
  calls.  \<^verbatim>\<open>PIL.UnidentifiedImageError\<close> derives from \<^verbatim>\<open>OSError\<close>;
  \<^verbatim>\<open>PIL.ImageCms.PyCMSError\<close> derives directly from \<^verbatim>\<open>Exception\<close>.\<close>

datatype exc_class =
    OSError | FileNotFoundError | IsADirectoryError | PermissionError | UnidentifiedImageError
  | ValueError | TypeError | IndexError | RuntimeError | PyCMSError
  | KeyboardInterrupt | ZeroDivisionError | OverflowError

fun class_name :: "exc_class \<Rightarrow> string" where
  "class_name OSError = ''OSError''"
| "class_name FileNotFoundError = ''FileNotFoundError''"
| "class_name IsADirectoryError = ''IsADirectoryError''"
| "class_name PermissionError = ''PermissionError''"
| "class_name UnidentifiedImageError = ''UnidentifiedImageError''"
| "class_name ValueError = ''ValueError''"
| "class_name TypeError = ''TypeError''"
| "class_name IndexError = ''IndexError''"
| "class_name RuntimeError = ''RuntimeError''"
| "class_name PyCMSError = ''PyCMSError''"
| "class_name KeyboardInterrupt = ''KeyboardInterrupt''"
| "class_name ZeroDivisionError = ''ZeroDivisionError''"
| "class_name OverflowError = ''OverflowError''"

text \<open>\<^verbatim>\<open>issubclass(c, d)\<close> on the classes above.\<close>

fun issubclass :: "exc_class \<Rightarrow> exc_class \<Rightarrow> bool" where
  "issubclass FileNotFoundError OSError = True"
| "issubclass IsADirectoryError OSError = True"
| "issubclass PermissionError OSError = True"
| "issubclass UnidentifiedImageError OSError = True"
| "issubclass c d = (c = d)"

text \<open>An exception object: its class and \<^verbatim>\<open>str(err)\<close>.\<close>

datatype exn = Exn (exn_class: exc_class) (exn_str: string)

definition isinstance :: "exn \<Rightarrow> exc_class \<Rightarrow> bool" where
  "isinstance e c = issubclass (exn_class e) c"

type_synonym bytes = "nat list"

text \<open>A decoded Pillow image: \<^verbatim>\<open>image.size\<close>, \<^verbatim>\<open>image.mode\<close>, the pixel data, and the
  entry \<^verbatim>\<open>image.info['icc_profile']\<close> (\<open>None\<close> when the key is absent).\<close>

record image =
  im_size :: "nat \<times> nat"
  im_mode :: string
  im_data :: "nat list"
  info_icc_profile :: "bytes option"

text \<open>What \<^verbatim>\<open>save_image\<close> can be handed: a Pillow image, a numpy array, or any other
  object (the function tests with \<^verbatim>\<open>isinstance\<close>).\<close>

datatype out_image = PIL_Image image | Ndarray "nat list" | Other_object

datatype kwval = Bytes_val bytes | Int_val int

text \<open>Keyword arguments, in insertion order.\<close>

type_synonym kwargs = "(string \<times> kwval) list"

datatype tiff_dtype = BYTE

type_synonym extratag = "string \<times> tiff_dtype \<times> nat \<times> bytes \<times> bool"

datatype event =
    Print_stdout string
  | Print_stderr string
  | Tqdm_write string
  | Call_profileToProfile image bytes bytes string
  | Call_Image_save string image kwargs
  | Call_TiffWriter string
  | Call_TiffWriter_save string "nat list" string "nat \<times> nat" "extratag list"
  | Call_manual_seed int
  | Call_stylize image "image list" int
  | Print_traceback exn

text \<open>How a call ends: it returns, an exception leaves it, or \<^verbatim>\<open>sys.exit(n)\<close> ends the
  process.  A run is the outcome together with the trace produced up to it.\<close>

datatype 'a outcome = Returned 'a | Raised exn | Exited int

type_synonym 'a run = "'a outcome \<times> event list"

definition ret :: "'a \<Rightarrow> 'a run" where
  "ret x = (Returned x, [])"

definition emit :: "event \<Rightarrow> unit run" where
  "emit ev = (Returned (), [ev])"

definition raise :: "exn \<Rightarrow> 'a run" where
  "raise e = (Raised e, [])"

definition sys_exit :: "int \<Rightarrow> 'a run" where
  "sys_exit n = (Exited n, [])"

text \<open>A library call: its result is given by the environment.\<close>

definition lib :: "exn + 'a \<Rightarrow> 'a run" where
  "lib r = (case r of Inl e \<Rightarrow> (Raised e, []) | Inr x \<Rightarrow> (Returned x, []))"

definition lib_unit :: "exn option \<Rightarrow> unit run" where
  "lib_unit r = (case r of Some e \<Rightarrow> (Raised e, []) | None \<Rightarrow> (Returned (), []))"

text \<open>Sequencing: the second statement runs only when the first returned.\<close>

fun bind :: "'a run \<Rightarrow> ('a \<Rightarrow> 'b run) \<Rightarrow> 'b run" where
  "bind (Returned x, t) f = (case f x of (r, t') \<Rightarrow> (r, t @ t'))"
| "bind (Raised e, t) f = (Raised e, t)"
| "bind (Exited n, t) f = (Exited n, t)"

text \<open>\<^verbatim>\<open>try: body  except C as err: handler(err)\<close>, with \<open>catches\<close> the test
  \<^verbatim>\<open>isinstance(err, C)\<close>.\<close>

fun try_except :: "'a run \<Rightarrow> (exn \<Rightarrow> bool) \<Rightarrow> (exn \<Rightarrow> 'a run) \<Rightarrow> 'a run" where
  "try_except (Raised e, t) catches handler =
     (if catches e then (case handler e of (r, t') \<Rightarrow> (r, t @ t')) else (Raised e, t))"
| "try_except (Returned x, t) catches handler = (Returned x, t)"
| "try_except (Exited n, t) catches handler = (Exited n, t)"

text \<open>\<^verbatim>\<open>with ... as writer: body\<close>, once the writer exists: the writer is closed when the
  body is left, in whichever way; \<open>closing\<close> is the exception of the close, if any, and it
  replaces the way the body was left.\<close>

fun with_exit :: "'a run \<Rightarrow> exn option \<Rightarrow> 'a run" where
  "with_exit (r, t) None = (r, t)"
| "with_exit (r, t) (Some e) = (Raised e, t)"

text \<open>\<^verbatim>\<open>for x in xs: body(x)\<close>.\<close>

fun for_each :: "'a list \<Rightarrow> ('a \<Rightarrow> unit run) \<Rightarrow> unit run" where
  "for_each [] body = (Returned (), [])"
| "for_each (x # xs) body = bind (body x) (\<lambda>_. for_each xs body)"

section \<open>Strings and paths\<close>

text \<open>\<^verbatim>\<open>str.lower()\<close> on ASCII letters; other characters are kept.\<close>

definition lower_char :: "char \<Rightarrow> char" where
  "lower_char c =
     (case map_of (zip ''ABCDEFGHIJKLMNOPQRSTUVWXYZ'' ''abcdefghijklmnopqrstuvwxyz'') c of
        Some d \<Rightarrow> d | None \<Rightarrow> c)"

definition lower :: "string \<Rightarrow> string" where
  "lower s = map lower_char s"

text \<open>\<^verbatim>\<open>sep.join(xs)\<close>.\<close>

fun join :: "string \<Rightarrow> string list \<Rightarrow> string" where
  "join sep [] = []"
| "join sep [x] = x"
| "join sep (x # y # ys) = x @ sep @ join sep (y # ys)"

text \<open>\<^verbatim>\<open>s.split(c)\<close> for a one-character separator.\<close>

fun split_on :: "char \<Rightarrow> string \<Rightarrow> string list" where
  "split_on c [] = [[]]"
| "split_on c (x # xs) =
     (if x = c then [] # split_on c xs
      else (case split_on c xs of w # ws \<Rightarrow> (x # w) # ws | [] \<Rightarrow> [[x]]))"

text \<open>\<^verbatim>\<open>pathlib.Path(p)\<close> on a POSIX system: the components that are neither empty nor
  \<^verbatim>\<open>.\<close>, the root, \<^verbatim>\<open>str(path)\<close>, \<^verbatim>\<open>path.name\<close> and \<^verbatim>\<open>path.suffix\<close> (the part of the name
  from its last dot on, when that dot is neither the first nor the last character).\<close>

definition path_parts :: "string \<Rightarrow> string list" where
  "path_parts p = filter (\<lambda>x. x \<noteq> [] \<and> x \<noteq> ''.'') (split_on CHR ''/'' p)"

definition path_root :: "string \<Rightarrow> string" where
  "path_root p =
     (if take 2 p = ''//'' \<and> take 3 p \<noteq> ''///'' then ''//''
      else if take 1 p = ''/'' then ''/'' else [])"

definition path_str :: "string \<Rightarrow> string" where
  "path_str p = (let s = path_root p @ join ''/'' (path_parts p) in if s = [] then ''.'' else s)"

definition path_name :: "string \<Rightarrow> string" where
  "path_name p = (case rev (path_parts p) of [] \<Rightarrow> [] | x # _ \<Rightarrow> x)"

definition path_suffix :: "string \<Rightarrow> string" where
  "path_suffix p =
     (let name = path_name p;
          ext = rev (takeWhile (\<lambda>c. c \<noteq> CHR ''.'') (rev name))
      in if CHR ''.'' \<in> set name \<and> length ext + 1 < length name \<and> ext \<noteq> []
         then CHR ''.'' # ext else [])"

text \<open>\<^verbatim>\<open>os.path.join(a, b)\<close> on a POSIX system.\<close>

definition os_path_join :: "string \<Rightarrow> string \<Rightarrow> string" where
  "os_path_join a b =
     (if take 1 b = ''/'' then b
      else if a = [] \<or> last a = CHR ''/'' then a @ b
      else a @ ''/'' @ b)"

text \<open>Decimal \<^verbatim>\<open>str(n)\<close> of a natural number.\<close>

fun str_nat :: "nat \<Rightarrow> string" where
  "str_nat n =
     (if n < 10 then [''0123456789'' ! n] else str_nat (n div 10) @ [''0123456789'' ! (n mod 10)])"

declare str_nat.simps [simp del]

section \<open>The libraries, as an environment\<close>

text \<open>\<^verbatim>\<open>torch.device\<close>: its \<^verbatim>\<open>type\<close> and optional index; \<^verbatim>\<open>str(device)\<close>.\<close>

datatype device = Device (device_type: string) (device_index: "nat option")

definition str_device :: "device \<Rightarrow> string" where
  "str_device d = device_type d @ (case device_index d of None \<Rightarrow> [] | Some i \<Rightarrow> '':'' @ str_nat i)"

text \<open>The fields of \<^verbatim>\<open>torch.cuda.get_device_properties(device)\<close> that the module reads.\<close>

record props =
  props_name :: string
  props_major :: nat
  props_minor :: nat
  total_memory :: nat

text \<open>
  The environment.  \<open>srgb_profile\<close> is the module-level constant read from
  \<^verbatim>\<open>sRGB Profile.icc\<close> at import.  The other fields are the library calls of the module, each
  with the arguments the module passes.  \<open>TiffWriter_open\<close> is the constructor
  \<^verbatim>\<open>TiffWriter(path)\<close>, \<open>TiffWriter_save\<close> the method \<^verbatim>\<open>writer.save\<close> and
  \<open>TiffWriter_close\<close> the close at the end of the \<^verbatim>\<open>with\<close> statement, each for the writer
  of the given path.  \<open>st_stylize\<close> gives the exception that left the
  call (if any) and the \<^verbatim>\<open>StyleTransfer\<close> object as the call left it; \<open>st_get_image\<close> reads
  the object's current image, \<open>None\<close> when there is none.
\<close>

record 'st env =
  srgb_profile :: bytes
  Image_open :: "string \<Rightarrow> exn + image"
  Image_convert :: "image \<Rightarrow> string \<Rightarrow> exn + image"
  ImageCms_profileToProfile :: "image \<Rightarrow> bytes \<Rightarrow> bytes \<Rightarrow> string \<Rightarrow> exn + image"
  Path_read_bytes :: "string \<Rightarrow> exn + bytes"
  Image_save :: "string \<Rightarrow> image \<Rightarrow> kwargs \<Rightarrow> exn option"
  TiffWriter_open :: "string \<Rightarrow> exn option"
  TiffWriter_save :: "string \<Rightarrow> nat list \<Rightarrow> string \<Rightarrow> nat \<times> nat \<Rightarrow> extratag list \<Rightarrow> exn option"
  TiffWriter_close :: "string \<Rightarrow> exn option"
  os_listdir :: "string \<Rightarrow> exn + string list"
  cuda_is_available :: bool
  get_num_threads :: nat
  get_device_properties :: "device \<Rightarrow> exn + props"
  tensor_to :: "device \<Rightarrow> exn option"
  StyleTransfer :: "device list \<Rightarrow> string \<Rightarrow> exn + 'st"
  st_stylize :: "'st \<Rightarrow> image \<Rightarrow> image list \<Rightarrow> int \<Rightarrow> exn option \<times> 'st"
  st_get_image :: "'st \<Rightarrow> string \<Rightarrow> exn + out_image option"

section \<open>Loading\<close>

text \<open>\<^verbatim>\<open>print_error\<close>: the class name between the escape sequences for red and reset,
  then \<^verbatim>\<open>str(err)\<close>, on the error stream.\<close>

definition error_line :: "exn \<Rightarrow> string" where
  "error_line err =
     [CHR 0x1B] @ ''[31m'' @ class_name (exn_class err) @ '':'' @ [CHR 0x1B] @ ''[0m ''
       @ exn_str err"

definition print_error :: "exn \<Rightarrow> unit run" where
  "print_error err = emit (Print_stderr (error_line err))"

definition prof_to_prof :: "'st env \<Rightarrow> image \<Rightarrow> bytes \<Rightarrow> bytes \<Rightarrow> string \<Rightarrow> image run" where
  "prof_to_prof E img src_prof dst_prof outputMode =
     bind (emit (Call_profileToProfile img src_prof dst_prof outputMode))
       (\<lambda>_. lib (ImageCms_profileToProfile E img src_prof dst_prof outputMode))"

text \<open>The body of the \<^verbatim>\<open>try\<close> statement of \<^verbatim>\<open>load_image\<close>.\<close>

definition load_image_try :: "'st env \<Rightarrow> string \<Rightarrow> string option \<Rightarrow> image run" where
  "load_image_try E path proof_prof =
     bind (lib (Image_open E path)) (\<lambda>image0.
     bind (case info_icc_profile image0 of
             Some p \<Rightarrow> ret (p, image0)
           | None \<Rightarrow> bind (lib (Image_convert E image0 ''RGB''))
                       (\<lambda>img. ret (srgb_profile E, img)))
       (\<lambda>(src_prof, img).
     case proof_prof of
       None \<Rightarrow>
         if src_prof = srgb_profile E then lib (Image_convert E img ''RGB'')
         else prof_to_prof E img src_prof (srgb_profile E) ''RGB''
     | Some pp \<Rightarrow>
         bind (lib (Path_read_bytes E (path_str pp))) (\<lambda>proof_bytes.
         bind (prof_to_prof E img src_prof proof_bytes ''CMYK'') (\<lambda>cmyk.
         prof_to_prof E cmyk proof_bytes (srgb_profile E) ''RGB''))))"

definition load_image :: "'st env \<Rightarrow> string \<Rightarrow> string option \<Rightarrow> image run" where
  "load_image E path proof_prof =
     try_except (load_image_try E path proof_prof) (\<lambda>err. isinstance err OSError)
       (\<lambda>err. bind (print_error err) (\<lambda>_. sys_exit 1))"

section \<open>Saving\<close>

definition save_pil :: "'st env \<Rightarrow> string \<Rightarrow> image \<Rightarrow> unit run" where
  "save_pil E path img =
     try_except
       (let kwargs =
              [(''icc_profile'', Bytes_val (srgb_profile E))] @
              (if lower (path_suffix path) \<in> {''.jpg'', ''.jpeg''}
               then [(''quality'', Int_val 95), (''subsampling'', Int_val 0)]
               else if lower (path_suffix path) = ''.webp'' then [(''quality'', Int_val 95)]
               else [])
        in bind (emit (Call_Image_save (path_str path) img kwargs))
             (\<lambda>_. lib_unit (Image_save E (path_str path) img kwargs)))
       (\<lambda>err. isinstance err OSError \<or> isinstance err ValueError)
       (\<lambda>err. bind (print_error err) (\<lambda>_. sys_exit 1))"

definition save_tiff :: "'st env \<Rightarrow> string \<Rightarrow> nat list \<Rightarrow> unit run" where
  "save_tiff E path arr =
     (let tag = (''InterColorProfile'', BYTE, length (srgb_profile E), srgb_profile E, False)
      in try_except
           (bind (emit (Call_TiffWriter (path_str path))) (\<lambda>_.
            bind (lib_unit (TiffWriter_open E (path_str path))) (\<lambda>_.
            with_exit
              (bind (emit (Call_TiffWriter_save (path_str path) arr ''rgb'' (72, 72) [tag]))
                 (\<lambda>_. lib_unit (TiffWriter_save E (path_str path) arr ''rgb'' (72, 72) [tag])))
              (TiffWriter_close E (path_str path)))))
           (\<lambda>err. isinstance err OSError)
           (\<lambda>err. bind (print_error err) (\<lambda>_. sys_exit 1)))"

definition unsupported :: exn where
  "unsupported = Exn ValueError ''Unsupported combination of image type and extension''"

definition save_image :: "'st env \<Rightarrow> string \<Rightarrow> out_image \<Rightarrow> unit run" where
  "save_image E path obj =
     bind (emit (Tqdm_write (''Writing image to '' @ path_str path @ ''.''))) (\<lambda>_.
     case obj of
       PIL_Image im \<Rightarrow> save_pil E path im
     | Ndarray a \<Rightarrow>
         if lower (path_suffix path) \<in> {''.tif'', ''.tiff''} then save_tiff E path a
         else raise unsupported
     | Other_object \<Rightarrow> raise unsupported)"

section \<open>The safe scale\<close>

text \<open>
  \<^verbatim>\<open>get_safe_scale\<close> computes with Python floats.  The float operations it uses are taken as
  parameters over a type \<open>'f\<close> of Python numbers: true division of two integers with a
  nonzero divisor, the built-in \<^verbatim>\<open>pow\<close>, the product of a number and an integer, and
  \<^verbatim>\<open>int()\<close>.  Division by zero is the language's own check and is written out.
\<close>

record 'f float_ops =
  int_truediv :: "int \<Rightarrow> int \<Rightarrow> exn + 'f"
  float_pow :: "'f \<Rightarrow> 'f \<Rightarrow> exn + 'f"
  float_mul_int :: "'f \<Rightarrow> int \<Rightarrow> exn + 'f"
  float_to_int :: "'f \<Rightarrow> exn + int"

definition truediv :: "'f float_ops \<Rightarrow> int \<Rightarrow> int \<Rightarrow> exn + 'f" where
  "truediv F a b =
     (if b = 0 then Inl (Exn ZeroDivisionError ''division by zero'') else int_truediv F a b)"

definition get_safe_scale :: "'f float_ops \<Rightarrow> int \<Rightarrow> int \<Rightarrow> int \<Rightarrow> exn + int" where
  "get_safe_scale F w h dim' =
     (case (if w > h then truediv F w h else truediv F h w) of
        Inl e \<Rightarrow> Inl e
      | Inr ratio \<Rightarrow>
     (case truediv F 1 2 of
        Inl e \<Rightarrow> Inl e
      | Inr half \<Rightarrow>
     (case float_pow F ratio half of
        Inl e \<Rightarrow> Inl e
      | Inr powed \<Rightarrow>
     (case float_mul_int F powed dim' of
        Inl e \<Rightarrow> Inl e
      | Inr scaled \<Rightarrow> float_to_int F scaled))))"

section \<open>One job\<close>

text \<open>The two checks on the device list (lines 98 to 103), for any list.\<close>

definition check_devices :: "device list \<Rightarrow> unit run" where
  "check_devices devices =
     (if length (remdups (map device_type devices)) \<noteq> 1
      then bind (emit (Print_stdout ''Devices must all be the same type.'')) (\<lambda>_. sys_exit 1)
      else if \<not> (1 \<le> length devices \<and> length devices \<le> 2)
      then bind (emit (Print_stdout ''Only 1 or 2 devices are supported.'')) (\<lambda>_. sys_exit 1)
      else ret ())"

text \<open>\<^verbatim>\<open>round(a / b)\<close> for a true division that is exact in floating point (here \<open>b\<close> is
  \<open>1024 ^ 3\<close> and \<open>a\<close> a memory size below \<open>2 ^ 53\<close>): to the nearest integer, ties to even.\<close>

definition py_round_div :: "nat \<Rightarrow> nat \<Rightarrow> nat" where
  "py_round_div a b =
     (let q = a div b; r = a mod b
      in if 2 * r < b then q else if b < 2 * r then q + 1 else if even q then q else q + 1)"

fun report_gpus :: "'st env \<Rightarrow> nat \<Rightarrow> device list \<Rightarrow> unit run" where
  "report_gpus E i [] = ret ()"
| "report_gpus E i (device # rest) =
     bind (lib (get_device_properties E device)) (\<lambda>props.
     bind (emit (Print_stdout (''GPU '' @ str_nat i @ '' type: '' @ props_name props
              @ '' (compute '' @ str_nat (props_major props) @ ''.''
              @ str_nat (props_minor props) @ '')''))) (\<lambda>_.
     bind (emit (Print_stdout (''GPU '' @ str_nat i @ '' RAM: ''
              @ str_nat (py_round_div (total_memory props) (1024 ^ 3)) @ '' GB''))) (\<lambda>_.
     report_gpus E (Suc i) rest)))"

definition report_devices :: "'st env \<Rightarrow> device list \<Rightarrow> unit run" where
  "report_devices E devices =
     bind (emit (Print_stdout (''Using devices: '' @ join '' '' (map str_device devices)))) (\<lambda>_.
     case devices of
       [] \<Rightarrow> raise (Exn IndexError ''list index out of range'')
     | first # _ \<Rightarrow>
         bind (if device_type first = ''cpu''
               then emit (Print_stdout (''CPU threads: '' @ str_nat (get_num_threads E)))
               else ret ()) (\<lambda>_.
         if device_type first = ''cuda'' then report_gpus E 0 devices else ret ()))"

fun move_tensors :: "'st env \<Rightarrow> device list \<Rightarrow> unit run" where
  "move_tensors E [] = ret ()"
| "move_tensors E (device # rest) =
     bind (lib_unit (tensor_to E device)) (\<lambda>_. move_tensors E rest)"

text \<open>Lines 92 to 121: loading, the devices, the end scale, the model.\<close>

definition stylize_setup ::
  "'st env \<Rightarrow> string \<Rightarrow> string \<Rightarrow> (image \<times> image list \<times> int \<times> 'st) run" where
  "stylize_setup E content_path styles_path =
     bind (load_image E content_path None) (\<lambda>content_img.
     bind (load_image E styles_path None) (\<lambda>style_img.
     let style_imgs = [style_img];
         devices = [Device (if cuda_is_available E then ''cuda'' else ''cpu'')
                           (if cuda_is_available E then Some 0 else None)]
     in
     bind (check_devices devices) (\<lambda>_.
     bind (report_devices E devices) (\<lambda>_.
     let end_scale = int (max (fst (im_size content_img)) (snd (im_size content_img))) in
     bind (move_tensors E devices) (\<lambda>_.
     bind (emit (Call_manual_seed 0)) (\<lambda>_.
     bind (emit (Print_stdout ''Loading model...'')) (\<lambda>_.
     bind (lib (StyleTransfer E devices ''max'')) (\<lambda>st.
     ret (content_img, style_imgs, end_scale, st)))))))))"

text \<open>Lines 123 to 130: the stylizer call inside \<^verbatim>\<open>try ... except KeyboardInterrupt: pass\<close>,
  then the image is fetched and, unless it is \<open>None\<close>, saved.\<close>

definition stylize_run ::
  "'st env \<Rightarrow> string \<Rightarrow> image \<times> image list \<times> int \<times> 'st \<Rightarrow> unit run" where
  "stylize_run E save_dir job =
     (case job of (content_img, style_imgs, end_scale, st) \<Rightarrow>
     bind (emit (Call_stylize content_img style_imgs end_scale)) (\<lambda>_.
     case st_stylize E st content_img style_imgs end_scale of (err, st') \<Rightarrow>
     bind (try_except (lib_unit err) (\<lambda>e. isinstance e KeyboardInterrupt) (\<lambda>_. ret ())) (\<lambda>_.
     bind (lib (st_get_image E st' ''pil'')) (\<lambda>output_image.
     case output_image of
       None \<Rightarrow> ret ()
     | Some img \<Rightarrow> save_image E save_dir img))))"

definition stylize :: "'st env \<Rightarrow> string \<Rightarrow> string \<Rightarrow> string \<Rightarrow> unit run" where
  "stylize E content_path styles_path save_dir =
     bind (stylize_setup E content_path styles_path) (stylize_run E save_dir)"

section \<open>The script\<close>

text \<open>Lines 133 to 141: every entry of the content directory is stylized in turn; nothing
  here catches an exception.  \<open>job\<close> is the body of the loop.\<close>

definition content_path :: string where
  "content_path = ''/home/zjlab/xzz/datasets/Camera1''"

definition style_path :: string where
  "style_path = ''/home/zjlab/xzz/datasets/style/vangoh.jpeg''"

definition save_dir :: string where
  "save_dir = ''/home/zjlab/xzz/datasets/Camera1_style''"

definition job :: "'st env \<Rightarrow> string \<Rightarrow> unit run" where
  "job E i =
     (let content_img = os_path_join content_path i
      in stylize E content_img style_path (os_path_join save_dir i))"

definition main :: "'st env \<Rightarrow> unit run" where
  "main E = bind (lib (os_listdir E content_path)) (\<lambda>names. for_each names (job E))"

text \<open>How the interpreter ends the process that runs the script: status 0 when the script
  ran to its end, status \<open>n\<close> after \<^verbatim>\<open>sys.exit(n)\<close>; for an exception that nothing caught
  it prints the traceback on the error stream and ends with status 1, except for
  \<^verbatim>\<open>KeyboardInterrupt\<close>, where the process ends as an interrupted one.\<close>

datatype process_end = Exit_status int | Interrupted

fun interpreter :: "unit run \<Rightarrow> process_end \<times> event list" where
  "interpreter (Returned u, t) = (Exit_status 0, t)"
| "interpreter (Exited n, t) = (Exit_status n, t)"
| "interpreter (Raised e, t) =
     (if isinstance e KeyboardInterrupt then Interrupted else Exit_status 1,
      t @ [Print_traceback e])"

section \<open>Observations on traces\<close>

text \<open>The calls of the colour engine in a trace, in order.\<close>

definition conversions :: "event list \<Rightarrow> event list" where
  "conversions tr =
     filter (\<lambda>ev. case ev of Call_profileToProfile _ _ _ _ \<Rightarrow> True | _ \<Rightarrow> False) tr"

text \<open>The calls that encode an image into a file.\<close>

definition writes :: "event list \<Rightarrow> event list" where
  "writes tr =
     filter (\<lambda>ev. case ev of Call_Image_save _ _ _ \<Rightarrow> True
                    | Call_TiffWriter_save _ _ _ _ _ \<Rightarrow> True | _ \<Rightarrow> False) tr"

text \<open>\<^verbatim>\<open>save_image\<close> is the only function that calls \<^verbatim>\<open>tqdm.write\<close>, once, as its first
  statement: these events count its invocations.\<close>

fun is_save_start :: "event \<Rightarrow> bool" where
  "is_save_start (Tqdm_write s) = True"
| "is_save_start ev = False"

fun is_stylize_call :: "event \<Rightarrow> bool" where
  "is_stylize_call (Call_stylize c ss n) = True"
| "is_stylize_call ev = False"

definition quiet :: "event \<Rightarrow> bool" where
  "quiet ev \<longleftrightarrow> \<not> is_save_start ev \<and> \<not> is_stylize_call ev"

text \<open>What Pillow guarantees about modes: \<^verbatim>\<open>Image.convert(mode)\<close> returns an image of that
  mode, and \<^verbatim>\<open>ImageCms.profileToProfile(..., outputMode=mode)\<close> one of the output mode.\<close>

definition pillow_modes :: "'st env \<Rightarrow> bool" where
  "pillow_modes E \<longleftrightarrow>
     (\<forall>img m r. Image_convert E img m = Inr r \<longrightarrow> im_mode r = m) \<and>
     (\<forall>img s d m r. ImageCms_profileToProfile E img s d m = Inr r \<longrightarrow> im_mode r = m)"

section \<open>Example environments\<close>

definition srgb_bytes :: bytes where
  "srgb_bytes = [115, 82, 71, 66]"

definition adobe_bytes :: bytes where
  "adobe_bytes = [65, 100, 111, 98, 101]"

definition press_bytes :: bytes where
  "press_bytes = [67, 77, 89, 75]"

text \<open>A 2000 x 1000 JPEG tagged with the canonical profile, an untagged square PNG with an
  alpha channel, and a JPEG tagged with another profile.\<close>

definition content_jpg :: image where
  "content_jpg =
     \<lparr>im_size = (2000, 1000), im_mode = ''RGB'', im_data = [], info_icc_profile = Some srgb_bytes\<rparr>"

definition style_png :: image where
  "style_png =
     \<lparr>im_size = (512, 512), im_mode = ''RGBA'', im_data = [], info_icc_profile = None\<rparr>"

definition adobe_jpg :: image where
  "adobe_jpg =
     \<lparr>im_size = (640, 480), im_mode = ''RGB'', im_data = [], info_icc_profile = Some adobe_bytes\<rparr>"

text \<open>A machine without CUDA and with three image files and one proofing profile on disk;
  the content directory of the script holds one of them and the style file of the script
  exists.  Conversions change the mode only; every write succeeds; the stylizer finishes
  and holds the content image as its result.\<close>

definition example_env :: "out_image option env" where
  "example_env =
     \<lparr>srgb_profile = srgb_bytes,
      Image_open = (\<lambda>p.
        if p = ''content.jpg'' then Inr content_jpg
        else if p = ''style.png'' then Inr style_png
        else if p = ''adobe.jpg'' then Inr adobe_jpg
        else if p = ''/home/zjlab/xzz/datasets/Camera1/adobe.jpg'' then Inr adobe_jpg
        else if p = ''/home/zjlab/xzz/datasets/style/vangoh.jpeg'' then Inr style_png
        else Inl (Exn FileNotFoundError (''[Errno 2] No such file or directory: '' @ p))),
      Image_convert = (\<lambda>img m. Inr (img\<lparr>im_mode := m\<rparr>)),
      ImageCms_profileToProfile = (\<lambda>img s d m. Inr (img\<lparr>im_mode := m\<rparr>)),
      Path_read_bytes = (\<lambda>p.
        if p = ''press.icc'' then Inr press_bytes
        else Inl (Exn FileNotFoundError (''[Errno 2] No such file or directory: '' @ p))),
      Image_save = (\<lambda>p img kw. None),
      TiffWriter_open = (\<lambda>p. None),
      TiffWriter_save = (\<lambda>p arr photometric resolution tags. None),
      TiffWriter_close = (\<lambda>p. None),
      os_listdir = (\<lambda>d.
        if d = ''/home/zjlab/xzz/datasets/Camera1'' then Inr [''adobe.jpg'']
        else Inl (Exn FileNotFoundError (''[Errno 2] No such file or directory: '' @ d))),
      cuda_is_available = False,
      get_num_threads = 8,
      get_device_properties = (\<lambda>d. Inl (Exn RuntimeError ''No CUDA GPUs are available'')),
      tensor_to = (\<lambda>d. None),
      StyleTransfer = (\<lambda>ds pooling. Inr None),
      st_stylize = (\<lambda>st c ss n. (None, Some (PIL_Image c))),
      st_get_image = (\<lambda>st kind. Inr st)\<rparr>"

text \<open>The same machine with a stylizer that is interrupted and is left holding \<open>partial\<close>.\<close>

definition cancelled_env :: "out_image option \<Rightarrow> out_image option env" where
  "cancelled_env partial =
     example_env\<lparr>st_stylize := (\<lambda>st c ss n. (Some (Exn KeyboardInterrupt []), partial))\<rparr>"

text \<open>The same machine with a colour engine that rejects every transform, the way
  \<^verbatim>\<open>ImageCms.profileToProfile\<close> reports failures.\<close>

definition cms_failing_env :: "out_image option env" where
  "cms_failing_env =
     example_env\<lparr>ImageCms_profileToProfile :=
       (\<lambda>img s d m. Inl (Exn PyCMSError ''cannot build transform''))\<rparr>"

text \<open>Float operations on the ratios 1 and 4, where they are exact: \<open>4 / 1 = 4.0\<close>,
  \<open>pow(4.0, 0.5) = 2.0\<close>, \<open>pow(1.0, 0.5) = 1.0\<close>, products and \<^verbatim>\<open>int()\<close> of small
  values.  Other arguments of \<^verbatim>\<open>pow\<close> are outside this table.\<close>

definition small_float_ops :: "rat float_ops" where
  "small_float_ops =
     \<lparr>int_truediv = (\<lambda>a b. Inr (of_int a / of_int b)),
      float_pow = (\<lambda>x y.
        if x = 4 \<and> y = 1 / 2 then Inr 2
        else if x = 1 then Inr 1
        else Inl (Exn ValueError ''outside the table'')),
      float_mul_int = (\<lambda>x n. Inr (x * of_int n)),
      float_to_int = (\<lambda>x. Inr (if 0 \<le> x then \<lfloor>x\<rfloor> else \<lceil>x\<rceil>))\<rparr>"

section \<open>Runs and their traces\<close>

lemmas run_defs = ret_def emit_def raise_def sys_exit_def lib_def lib_unit_def print_error_def

lemmas example_defs = example_env_def cancelled_env_def cms_failing_env_def content_jpg_def
  style_png_def adobe_jpg_def srgb_bytes_def adobe_bytes_def press_bytes_def

lemmas path_defs = path_str_def path_root_def path_parts_def path_suffix_def path_name_def
  lower_def lower_char_def

lemmas eval_defs = load_image_def load_image_try_def prof_to_prof_def run_defs example_defs
  isinstance_def save_image_def save_pil_def save_tiff_def unsupported_def path_defs
  stylize_def stylize_setup_def stylize_run_def check_devices_def report_devices_def
  str_device_def error_line_def

lemma bind_Returned_iff:
  "bind m f = (Returned y, t) \<longleftrightarrow>
     (\<exists>x t1 t2. m = (Returned x, t1) \<and> f x = (Returned y, t2) \<and> t = t1 @ t2)"
  by (cases "(m, f)" rule: bind.cases) (auto split: prod.splits)

lemma snd_bind:
  "snd (bind m f) = snd m @ (case fst m of Returned x \<Rightarrow> snd (f x) | _ \<Rightarrow> [])"
  by (cases "(m, f)" rule: bind.cases) (auto split: prod.splits)

lemma snd_try_except:
  "snd (try_except m c h) =
     snd m @ (case fst m of Raised e \<Rightarrow> if c e then snd (h e) else [] | _ \<Rightarrow> [])"
  by (cases "(m, c, h)" rule: try_except.cases) (auto split: prod.splits)

lemma bind_events:
  assumes "\<forall>ev\<in>set (snd m). P ev" and "\<And>x. \<forall>ev\<in>set (snd (f x)). P ev"
  shows "\<forall>ev\<in>set (snd (bind m f)). P ev"
  using assms by (auto simp: snd_bind split: outcome.splits)

lemma try_except_events:
  assumes "\<forall>ev\<in>set (snd m). P ev" and "\<And>e. \<forall>ev\<in>set (snd (h e)). P ev"
  shows "\<forall>ev\<in>set (snd (try_except m c h)). P ev"
  using assms by (auto simp: snd_try_except split: outcome.splits if_splits)

lemma snd_emit: "snd (emit ev) = [ev]" and fst_emit: "fst (emit ev) = Returned ()"
  by (simp_all add: emit_def)

lemma snd_lib: "snd (lib r) = []"
  by (simp add: lib_def split: sum.splits)

lemma snd_ret: "snd (ret x) = []"
  by (simp add: ret_def)

lemma filter_quiet:
  assumes "\<forall>ev\<in>set tr. quiet ev"
  shows "filter is_save_start tr = []" and "filter is_stylize_call tr = []"
  using assms by (auto simp: quiet_def filter_empty_conv)

subsection \<open>Loading and the set-up emit neither a save nor a stylizer call\<close>

lemma snd_prof_to_prof:
  "snd (prof_to_prof E img s d m) = [Call_profileToProfile img s d m]"
  by (simp add: prof_to_prof_def snd_bind snd_emit fst_emit snd_lib)

lemma load_image_try_quiet: "\<forall>ev\<in>set (snd (load_image_try E path pp)). quiet ev"
  unfolding load_image_try_def
  by (intro bind_events)
    (auto simp: snd_lib snd_ret snd_bind snd_prof_to_prof quiet_def
      split: option.splits outcome.splits if_splits)

lemma load_image_quiet: "\<forall>ev\<in>set (snd (load_image E path pp)). quiet ev"
  unfolding load_image_def
  by (intro try_except_events bind_events load_image_try_quiet)
    (simp_all add: run_defs quiet_def)

lemma check_devices_quiet: "\<forall>ev\<in>set (snd (check_devices ds)). quiet ev"
  by (auto simp: check_devices_def run_defs quiet_def)

lemma report_gpus_quiet: "\<forall>ev\<in>set (snd (report_gpus E i ds)). quiet ev"
proof (induction ds arbitrary: i)
  case Nil
  show ?case by (simp add: run_defs)
next
  case (Cons d ds)
  show ?case
    unfolding report_gpus.simps
    by (intro bind_events Cons.IH) (auto simp: run_defs quiet_def split: sum.splits)
qed

lemma report_devices_quiet: "\<forall>ev\<in>set (snd (report_devices E ds)). quiet ev"
  unfolding report_devices_def
  by (intro bind_events)
    (auto simp: run_defs quiet_def snd_bind dest: report_gpus_quiet [rule_format]
      split: list.splits outcome.splits)

lemma move_tensors_quiet: "\<forall>ev\<in>set (snd (move_tensors E ds)). quiet ev"
proof (induction ds)
  case Nil
  show ?case by (simp add: run_defs)
next
  case (Cons d ds)
  show ?case
    unfolding move_tensors.simps
    by (intro bind_events Cons.IH) (auto simp: run_defs split: option.splits)
qed

lemma stylize_setup_quiet: "\<forall>ev\<in>set (snd (stylize_setup E cp sp)). quiet ev"
  unfolding stylize_setup_def Let_def
  by (intro bind_events load_image_quiet check_devices_quiet report_devices_quiet
      move_tensors_quiet) (auto simp: run_defs quiet_def split: sum.splits)

lemma stylize_setup_result:
  assumes "stylize_setup E cp sp = (Returned (c, ss, n, st), tr)"
  shows "fst (load_image E cp None) = Returned c \<and>
         n = int (max (fst (im_size c)) (snd (im_size c)))"
  using assms
  by (auto simp: stylize_setup_def Let_def bind_Returned_iff ret_def)

subsection \<open>Saving announces itself once\<close>

lemma save_pil_quiet: "\<forall>ev\<in>set (snd (save_pil E p img)). quiet ev"
  unfolding save_pil_def Let_def
  by (intro try_except_events bind_events) (simp_all add: run_defs quiet_def split: option.splits)

lemma snd_with_exit: "snd (with_exit m c) = snd m"
  by (cases "(m, c)" rule: with_exit.cases) simp_all

lemma save_tiff_quiet: "\<forall>ev\<in>set (snd (save_tiff E p arr)). quiet ev"
  unfolding save_tiff_def Let_def
  by (intro try_except_events bind_events)
    (simp_all add: snd_with_exit snd_bind run_defs quiet_def split: option.splits)

lemma save_image_trace:
  "\<exists>rest. snd (save_image E p obj) = Tqdm_write (''Writing image to '' @ path_str p @ ''.'') # rest
      \<and> (\<forall>ev\<in>set rest. quiet ev)"
  using save_pil_quiet [of E p] save_tiff_quiet [of E p]
  by (cases obj) (simp_all add: save_image_def snd_bind snd_emit fst_emit raise_def)

lemma save_image_no_stylize: "filter is_stylize_call (snd (save_image E p obj)) = []"
  using save_image_trace [of E p obj] by (auto simp: quiet_def filter_empty_conv)

lemma save_image_one_start: "length (filter is_save_start (snd (save_image E p obj))) = 1"
  using save_image_trace [of E p obj] by (auto simp: quiet_def filter_empty_conv)

subsection \<open>The calls that encode the image\<close>

lemma writes_save_pil:
  "writes (snd (save_pil E path img)) =
      [Call_Image_save (path_str path) img
         ([(''icc_profile'', Bytes_val (srgb_profile E))] @
          (if lower (path_suffix path) \<in> {''.jpg'', ''.jpeg''}
           then [(''quality'', Int_val 95), (''subsampling'', Int_val 0)]
           else if lower (path_suffix path) = ''.webp'' then [(''quality'', Int_val 95)]
           else []))]"
proof -
  define kwargs where "kwargs = [(''icc_profile'', Bytes_val (srgb_profile E))] @
          (if lower (path_suffix path) \<in> {''.jpg'', ''.jpeg''}
           then [(''quality'', Int_val 95), (''subsampling'', Int_val 0)]
           else if lower (path_suffix path) = ''.webp'' then [(''quality'', Int_val 95)]
           else [])"
  have body: "save_pil E path img =
      try_except
        (bind (emit (Call_Image_save (path_str path) img kwargs))
           (\<lambda>_. lib_unit (Image_save E (path_str path) img kwargs)))
        (\<lambda>err. isinstance err OSError \<or> isinstance err ValueError)
        (\<lambda>err. bind (print_error err) (\<lambda>_. sys_exit 1))"
    unfolding save_pil_def kwargs_def Let_def ..
  have "writes (snd (save_pil E path img)) = [Call_Image_save (path_str path) img kwargs]"
    unfolding body
    by (cases "Image_save E (path_str path) img kwargs") (simp_all add: writes_def run_defs)
  then show ?thesis
    unfolding kwargs_def .
qed

lemma writes_save_tiff:
  "writes (snd (save_tiff E path arr)) =
      (if TiffWriter_open E (path_str path) = None
       then [Call_TiffWriter_save (path_str path) arr ''rgb'' (72, 72)
               [(''InterColorProfile'', BYTE, length (srgb_profile E), srgb_profile E, False)]]
       else [])"
proof -
  define tags where
    "tags = [(''InterColorProfile'', BYTE, length (srgb_profile E), srgb_profile E, False)]"
  have body: "save_tiff E path arr =
      try_except
        (bind (emit (Call_TiffWriter (path_str path))) (\<lambda>_.
         bind (lib_unit (TiffWriter_open E (path_str path))) (\<lambda>_.
         with_exit
           (bind (emit (Call_TiffWriter_save (path_str path) arr ''rgb'' (72, 72) tags))
              (\<lambda>_. lib_unit (TiffWriter_save E (path_str path) arr ''rgb'' (72, 72) tags)))
           (TiffWriter_close E (path_str path)))))
        (\<lambda>err. isinstance err OSError)
        (\<lambda>err. bind (print_error err) (\<lambda>_. sys_exit 1))"
    unfolding save_tiff_def tags_def Let_def ..
  have "writes (snd (save_tiff E path arr)) =
      (if TiffWriter_open E (path_str path) = None
       then [Call_TiffWriter_save (path_str path) arr ''rgb'' (72, 72) tags] else [])"
    unfolding body
    by (cases "TiffWriter_open E (path_str path)";
        cases "TiffWriter_save E (path_str path) arr ''rgb'' (72, 72) tags";
        cases "TiffWriter_close E (path_str path)")
      (simp_all add: writes_def run_defs)
  then show ?thesis
    unfolding tags_def .
qed

subsection \<open>The stylizer is called at most once, with the job of the set-up\<close>

lemma stylize_run_calls:
  "filter is_stylize_call (snd (stylize_run E sd (c, ss, n, st))) = [Call_stylize c ss n]"
proof -
  obtain err st' where call: "st_stylize E st c ss n = (err, st')"
    by (cases "st_stylize E st c ss n")
  have pass:
    "snd (try_except (lib_unit err) (\<lambda>e. isinstance e KeyboardInterrupt) (\<lambda>_. ret ())) = []"
    by (simp add: run_defs split: option.splits)
  have "filter is_stylize_call
      (snd (case res of None \<Rightarrow> ret () | Some img \<Rightarrow> save_image E sd img)) = []" for res
    by (simp add: ret_def save_image_no_stylize split: option.splits)
  then show ?thesis
    by (simp add: stylize_run_def call snd_bind pass snd_lib snd_emit fst_emit
        split: outcome.splits)
qed

lemma stylize_calls:
  "filter is_stylize_call (snd (stylize E cp sp sd)) =
     (case stylize_setup E cp sp of
        (Returned (c, ss, n, st), tr) \<Rightarrow> [Call_stylize c ss n]
      | _ \<Rightarrow> [])"
  using filter_quiet(2) [OF stylize_setup_quiet, of E cp sp]
  by (auto simp: stylize_def snd_bind stylize_run_calls split: prod.splits outcome.splits)

lemma check_devices_cases:
  "check_devices ds =
     (if card (device_type ` set ds) \<noteq> 1
      then (Exited 1, [Print_stdout ''Devices must all be the same type.''])
      else if \<not> (1 \<le> length ds \<and> length ds \<le> 2)
      then (Exited 1, [Print_stdout ''Only 1 or 2 devices are supported.''])
      else (Returned (), []))"
  by (simp add: check_devices_def length_remdups_card_conv run_defs)

subsection \<open>A failed load ends the job, and a failed job ends the script\<close>

lemma stylize_content_load_fails:
  "load_image E cp None = (Raised e, tr) \<Longrightarrow> stylize E cp sp sd = (Raised e, tr)"
  "load_image E cp None = (Exited n, tr) \<Longrightarrow> stylize E cp sp sd = (Exited n, tr)"
  by (simp_all add: stylize_def stylize_setup_def)

lemma stylize_style_load_fails:
  "load_image E cp None = (Returned c, t1) \<Longrightarrow> load_image E sp None = (Raised e, t2) \<Longrightarrow>
     stylize E cp sp sd = (Raised e, t1 @ t2)"
  "load_image E cp None = (Returned c, t1) \<Longrightarrow> load_image E sp None = (Exited n, t2) \<Longrightarrow>
     stylize E cp sp sd = (Exited n, t1 @ t2)"
  by (simp_all add: stylize_def stylize_setup_def)

lemma for_each_stops:
  assumes "\<forall>j\<in>set pre. fst (body j) = Returned ()" and "fst (body i) \<noteq> Returned ()"
  shows "for_each (pre @ i # post) body =
     (fst (body i), concat (map (\<lambda>j. snd (body j)) pre) @ snd (body i))"
  using assms(1)
proof (induction pre)
  case Nil
  obtain r t where run: "body i = (r, t)"
    by (cases "body i")
  with assms(2) show ?case
    by (cases r) auto
next
  case (Cons j pre)
  then obtain t where "body j = (Returned (), t)"
    by (cases "body j") auto
  with Cons show ?case
    by simp
qed

lemma main_stops:
  assumes "os_listdir E content_path = Inr (pre @ i # post)"
    and "\<forall>j\<in>set pre. fst (job E j) = Returned ()" and "fst (job E i) \<noteq> Returned ()"
  shows "main E = (fst (job E i), concat (map (\<lambda>j. snd (job E j)) pre) @ snd (job E i))"
  using for_each_stops [OF assms(2,3), of post] assms(1)
  by (simp add: main_def lib_def)

subsection \<open>The safe scale does not depend on the order of width and height\<close>

lemma get_safe_scale_swap: "get_safe_scale F w h d = get_safe_scale F h w d"
  by (cases w h rule: linorder_cases) (simp_all add: get_safe_scale_def)

section \<open>Device validation\<close>

text \<open>
  Claim C6.  For every device list, the validation ends the process with status 1 exactly
  when the list is empty, has more than two devices, or has devices of more than one type;
  it passes exactly when the list has one or two devices, all of one type.
\<close>

theorem check_devices_verdict:
  "(fst (check_devices ds) = Exited 1 \<longleftrightarrow>
      (length ds = 0 \<or> 2 < length ds \<or> 1 < card (device_type ` set ds)))
   \<and> (fst (check_devices ds) = Returned () \<longleftrightarrow>
      ((length ds = 1 \<or> length ds = 2) \<and> card (device_type ` set ds) = 1))"
proof -
  define n where "n = length ds"
  define k where "k = card (device_type ` set ds)"
  have zero: "k = 0 \<longleftrightarrow> n = 0"
    by (simp add: k_def n_def card_eq_0_iff)
  have "fst (check_devices ds) =
      (if k \<noteq> 1 then Exited 1 else if \<not> (1 \<le> n \<and> n \<le> 2) then Exited 1 else Returned ())"
    by (simp add: check_devices_cases k_def n_def)
  then show ?thesis
    unfolding k_def [symmetric] n_def [symmetric] using zero
    by (auto split: if_splits)
qed

theorem check_devices_verdict_witness:
  "fst (check_devices [Device ''cuda'' (Some 0), Device ''cpu'' None]) = Exited 1 \<and>
   fst (check_devices []) = Exited 1 \<and>
   fst (check_devices [Device ''cuda'' (Some 0), Device ''cuda'' (Some 1)]) = Returned ()"
  using check_devices_verdict [of "[Device ''cuda'' (Some 0), Device ''cpu'' None]"]
    check_devices_verdict [of "[]"]
    check_devices_verdict [of "[Device ''cuda'' (Some 0), Device ''cuda'' (Some 1)]"]
  by simp

section \<open>Division by zero in the safe scale\<close>

text \<open>
  Claim C10.  \<^verbatim>\<open>get_safe_scale\<close> is not total on the integers: with \<open>h = 0\<close> and \<open>w > 0\<close>,
  or with \<open>w = 0\<close> and \<open>h \<ge> w\<close>, it raises \<^verbatim>\<open>ZeroDivisionError\<close>, whatever the float
  operations do; and whenever it returns a value, the smaller of \<open>w\<close> and \<open>h\<close> is not zero.
\<close>

theorem get_safe_scale_division_by_zero:
  "((h = 0 \<and> 0 < w) \<or> (w = 0 \<and> w \<le> h) \<longrightarrow>
      get_safe_scale F w h d = Inl (Exn ZeroDivisionError ''division by zero''))
   \<and> (get_safe_scale F w h d = Inr r \<longrightarrow> min w h \<noteq> 0)"
  by (auto simp: get_safe_scale_def truediv_def min_def split: sum.splits if_splits)

theorem get_safe_scale_division_by_zero_witness:
  "get_safe_scale small_float_ops 2000 0 512 = Inl (Exn ZeroDivisionError ''division by zero'') \<and>
   get_safe_scale small_float_ops 0 1000 512 = Inl (Exn ZeroDivisionError ''division by zero'') \<and>
   get_safe_scale small_float_ops 2000 500 512 = Inr 1024 \<and> min (2000 :: int) 500 \<noteq> 0"
proof -
  have returns: "get_safe_scale small_float_ops 2000 500 512 = Inr 1024"
    by (simp add: get_safe_scale_def truediv_def small_float_ops_def)
  show ?thesis
    using returns
      get_safe_scale_division_by_zero [where F = small_float_ops and w = 2000 and h = 0 and d = 512]
      get_safe_scale_division_by_zero [where F = small_float_ops and w = 0 and h = 1000 and d = 512]
      get_safe_scale_division_by_zero [where F = small_float_ops and w = 2000 and h = 500
        and d = 512 and r = 1024]
    by simp
qed

section \<open>Loading: the colour path\<close>

text \<open>
  Claim C1.  Without a proofing profile, a load that returns gives an image of mode
  \<open>RGB\<close>.  When the file carries a profile other than the canonical one there is exactly
  one call of the colour engine, from that profile to the canonical one with output mode
  \<open>RGB\<close>, and its result is returned.  When the embedded profile equals the canonical one
  there is no call and the result is the opened image coerced to \<open>RGB\<close>.  When there is no
  embedded profile there is no call either and the result is the image coerced to \<open>RGB\<close>
  (the coercion is applied twice, once on either side of the profile test).
\<close>

theorem load_image_without_proofing:
  assumes "pillow_modes E" and "Image_open E path = Inr im"
    and "load_image E path None = (Returned r, tr)"
  shows "im_mode r = ''RGB'' \<and>
     (case info_icc_profile im of
        Some p \<Rightarrow>
          if p = srgb_profile E
          then conversions tr = [] \<and> Image_convert E im ''RGB'' = Inr r
          else conversions tr = [Call_profileToProfile im p (srgb_profile E) ''RGB''] \<and>
               ImageCms_profileToProfile E im p (srgb_profile E) ''RGB'' = Inr r
      | None \<Rightarrow>
          conversions tr = [] \<and>
          (\<exists>rgb. Image_convert E im ''RGB'' = Inr rgb \<and> Image_convert E rgb ''RGB'' = Inr r))"
  using assms
  by (auto simp: load_image_def load_image_try_def prof_to_prof_def pillow_modes_def
      conversions_def run_defs split: option.splits sum.splits if_splits)

theorem load_image_without_proofing_witness:
  "pillow_modes example_env \<and>
   Image_open example_env ''adobe.jpg'' = Inr adobe_jpg \<and>
   load_image example_env ''adobe.jpg'' None =
     (Returned (adobe_jpg\<lparr>im_mode := ''RGB''\<rparr>),
      [Call_profileToProfile adobe_jpg adobe_bytes srgb_bytes ''RGB'']) \<and>
   im_mode (adobe_jpg\<lparr>im_mode := ''RGB''\<rparr>) = ''RGB'' \<and>
   conversions [Call_profileToProfile adobe_jpg adobe_bytes srgb_bytes ''RGB''] =
     [Call_profileToProfile adobe_jpg adobe_bytes srgb_bytes ''RGB'']"
proof -
  have modes: "pillow_modes example_env"
    by (simp add: pillow_modes_def example_env_def)
  have opened: "Image_open example_env ''adobe.jpg'' = Inr adobe_jpg"
    by (simp add: example_env_def)
  have loaded: "load_image example_env ''adobe.jpg'' None =
     (Returned (adobe_jpg\<lparr>im_mode := ''RGB''\<rparr>),
      [Call_profileToProfile adobe_jpg adobe_bytes srgb_bytes ''RGB''])"
    by (simp add: eval_defs)
  show ?thesis
    using modes opened loaded load_image_without_proofing [OF modes opened loaded]
    by (simp add: example_defs)
qed

text \<open>
  Claim C2.  With a proofing profile, a load that returns has made exactly two calls of
  the colour engine: from the source profile (the embedded one, or the canonical one for an
  untagged file) to the proofing profile with output mode \<open>CMYK\<close>, then from the proofing
  profile to the canonical one with output mode \<open>RGB\<close>.  Nothing compares the source
  profile with the canonical one on this path.
\<close>

theorem load_image_with_proofing:
  assumes "Image_open E path = Inr im" and "load_image E path (Some pp) = (Returned r, tr)"
  shows "\<exists>img proof_bytes cmyk.
      (case info_icc_profile im of
         Some p \<Rightarrow> img = im
       | None \<Rightarrow> Image_convert E im ''RGB'' = Inr img) \<and>
      Path_read_bytes E (path_str pp) = Inr proof_bytes \<and>
      ImageCms_profileToProfile E img
         (case info_icc_profile im of Some p \<Rightarrow> p | None \<Rightarrow> srgb_profile E)
         proof_bytes ''CMYK'' = Inr cmyk \<and>
      ImageCms_profileToProfile E cmyk proof_bytes (srgb_profile E) ''RGB'' = Inr r \<and>
      conversions tr =
        [Call_profileToProfile img
           (case info_icc_profile im of Some p \<Rightarrow> p | None \<Rightarrow> srgb_profile E)
           proof_bytes ''CMYK'',
         Call_profileToProfile cmyk proof_bytes (srgb_profile E) ''RGB'']"
  using assms
  by (auto simp: load_image_def load_image_try_def prof_to_prof_def conversions_def run_defs
      split: option.splits sum.splits if_splits)

text \<open>The witness loads the file tagged with the canonical profile itself.\<close>

theorem load_image_with_proofing_witness:
  "Image_open example_env ''content.jpg'' = Inr content_jpg \<and>
   info_icc_profile content_jpg = Some (srgb_profile example_env) \<and>
   load_image example_env ''content.jpg'' (Some ''press.icc'') =
     (Returned (content_jpg\<lparr>im_mode := ''RGB''\<rparr>),
      [Call_profileToProfile content_jpg srgb_bytes press_bytes ''CMYK'',
       Call_profileToProfile (content_jpg\<lparr>im_mode := ''CMYK''\<rparr>) press_bytes srgb_bytes ''RGB'']) \<and>
   length (conversions
      [Call_profileToProfile content_jpg srgb_bytes press_bytes ''CMYK'',
       Call_profileToProfile (content_jpg\<lparr>im_mode := ''CMYK''\<rparr>) press_bytes srgb_bytes ''RGB''])
     = 2"
proof -
  have opened: "Image_open example_env ''content.jpg'' = Inr content_jpg"
    by (simp add: example_env_def)
  have loaded: "load_image example_env ''content.jpg'' (Some ''press.icc'') =
     (Returned (content_jpg\<lparr>im_mode := ''RGB''\<rparr>),
      [Call_profileToProfile content_jpg srgb_bytes press_bytes ''CMYK'',
       Call_profileToProfile (content_jpg\<lparr>im_mode := ''CMYK''\<rparr>) press_bytes srgb_bytes ''RGB''])"
    by (simp add: eval_defs)
  show ?thesis
    using opened loaded load_image_with_proofing [OF opened loaded]
    by (auto simp: example_defs)
qed

section \<open>Loading: errors\<close>

text \<open>
  Claim C3, as stated, fails for colour-conversion failures.  \<^verbatim>\<open>load_image\<close> catches
  \<^verbatim>\<open>OSError\<close> only, and the colour engine reports its failures with \<^verbatim>\<open>PyCMSError\<close>.  With
  a content file whose profile differs from the canonical one and an engine that rejects
  the transform, the exception leaves \<^verbatim>\<open>load_image\<close>, \<^verbatim>\<open>stylize\<close> and the script: the
  process does end with status 1, but through the interpreter's traceback; the line of
  \<^verbatim>\<open>print_error\<close>, with the class name highlighted, is not printed.
\<close>

theorem load_image_conversion_failure_escapes:
  "ImageCms_profileToProfile cms_failing_env adobe_jpg adobe_bytes srgb_bytes ''RGB'' =
     Inl (Exn PyCMSError ''cannot build transform'') \<and>
   load_image cms_failing_env ''/home/zjlab/xzz/datasets/Camera1/adobe.jpg'' None =
     (Raised (Exn PyCMSError ''cannot build transform''),
      [Call_profileToProfile adobe_jpg adobe_bytes srgb_bytes ''RGB'']) \<and>
   interpreter (main cms_failing_env) =
     (Exit_status 1,
      [Call_profileToProfile adobe_jpg adobe_bytes srgb_bytes ''RGB'',
       Print_traceback (Exn PyCMSError ''cannot build transform'')]) \<and>
   Print_stderr (error_line (Exn PyCMSError ''cannot build transform''))
     \<notin> set (snd (interpreter (main cms_failing_env)))"
proof -
  have loaded: "load_image cms_failing_env ''/home/zjlab/xzz/datasets/Camera1/adobe.jpg'' None =
     (Raised (Exn PyCMSError ''cannot build transform''),
      [Call_profileToProfile adobe_jpg adobe_bytes srgb_bytes ''RGB''])"
    by (simp add: eval_defs)
  have listed: "os_listdir cms_failing_env content_path = Inr [''adobe.jpg'']"
    and joined: "os_path_join content_path ''adobe.jpg'' =
      ''/home/zjlab/xzz/datasets/Camera1/adobe.jpg''"
    by (simp_all add: example_defs content_path_def os_path_join_def)
  have "job cms_failing_env ''adobe.jpg'' =
     (Raised (Exn PyCMSError ''cannot build transform''),
      [Call_profileToProfile adobe_jpg adobe_bytes srgb_bytes ''RGB''])"
    unfolding job_def Let_def joined by (rule stylize_content_load_fails(1) [OF loaded])
  then have "main cms_failing_env =
     (Raised (Exn PyCMSError ''cannot build transform''),
      [Call_profileToProfile adobe_jpg adobe_bytes srgb_bytes ''RGB''])"
    by (simp add: main_def listed lib_def)
  then have "interpreter (main cms_failing_env) =
     (Exit_status 1,
      [Call_profileToProfile adobe_jpg adobe_bytes srgb_bytes ''RGB'',
       Print_traceback (Exn PyCMSError ''cannot build transform'')])"
    by (simp add: isinstance_def)
  moreover have "ImageCms_profileToProfile cms_failing_env adobe_jpg adobe_bytes srgb_bytes
      ''RGB'' = Inl (Exn PyCMSError ''cannot build transform'')"
    by (simp add: example_defs)
  ultimately show ?thesis
    using loaded by simp
qed

text \<open>
  Claim C3, amended.  Any error raised at a step of \<^verbatim>\<open>load_image\<close> aborts the job and
  the script, and the process ends with status 1 with the error on the error stream.
  An \<^verbatim>\<open>OSError\<close> (subclasses included) is handled by \<^verbatim>\<open>load_image\<close> itself, whether it comes
  from opening the file, from reading the proofing profile, from a conversion or from any
  other step of the \<^verbatim>\<open>try\<close> body: the line of \<^verbatim>\<open>print_error\<close> (class name in red, then the
  message) is printed and \<^verbatim>\<open>sys.exit(1)\<close> is called; no \<^verbatim>\<open>OSError\<close> leaves \<^verbatim>\<open>load_image\<close>, and
  it exits in no other case and with no other status.  Any other exception, such as the
  \<^verbatim>\<open>PyCMSError\<close> of a failed conversion, is not handled: it leaves \<^verbatim>\<open>load_image\<close> with the
  trace unchanged, then \<^verbatim>\<open>stylize\<close>, and the interpreter ends the process with its
  traceback and status 1.  In both cases the entries after the failing one are not processed.
\<close>

theorem load_image_OSError_is_fatal:
  "(Image_open E path = Inl e \<and> isinstance e OSError \<longrightarrow>
      load_image E path pp = (Exited 1, [Print_stderr (error_line e)]))
   \<and> (Image_open E path = Inr im \<and> info_icc_profile im = Some p \<and>
      Path_read_bytes E (path_str q) = Inl e \<and> isinstance e OSError \<longrightarrow>
      load_image E path (Some q) = (Exited 1, [Print_stderr (error_line e)]))
   \<and> (Image_open E path = Inr im \<and> info_icc_profile im = Some p \<and> p \<noteq> srgb_profile E \<and>
      ImageCms_profileToProfile E im p (srgb_profile E) ''RGB'' = Inl e \<and> isinstance e OSError \<longrightarrow>
      load_image E path None =
        (Exited 1,
         [Call_profileToProfile im p (srgb_profile E) ''RGB'', Print_stderr (error_line e)]))
   \<and> (load_image_try E path pp = (Raised e, tr) \<and> isinstance e OSError \<longrightarrow>
      load_image E path pp = (Exited 1, tr @ [Print_stderr (error_line e)]))
   \<and> (fst (load_image E path pp) = Raised e \<longrightarrow> \<not> isinstance e OSError)
   \<and> (fst (load_image E path pp) = Exited n \<longrightarrow> n = 1)
   \<and> (fst (load_image E path pp) = Exited n \<longrightarrow>
      (\<exists>e' tr'. isinstance e' OSError \<and> load_image_try E path pp = (Raised e', tr') \<and>
         snd (load_image E path pp) = tr' @ [Print_stderr (error_line e')]))
   \<and> (load_image_try E path pp = (Raised e, tr) \<and> \<not> isinstance e OSError \<longrightarrow>
      load_image E path pp = (Raised e, tr))
   \<and> (Image_open E path = Inr im \<and> info_icc_profile im = Some p \<and> p \<noteq> srgb_profile E \<and>
      ImageCms_profileToProfile E im p (srgb_profile E) ''RGB'' = Inl e \<and>
      \<not> isinstance e OSError \<longrightarrow>
      load_image E path None = (Raised e, [Call_profileToProfile im p (srgb_profile E) ''RGB'']))
   \<and> (load_image E cp None = (Raised e, tr) \<longrightarrow> stylize E cp sp sd = (Raised e, tr))
   \<and> (load_image E cp None = (Exited n, tr) \<longrightarrow> stylize E cp sp sd = (Exited 1, tr))
   \<and> (load_image E cp None = (Returned c, tr0) \<and> load_image E sp None = (Raised e, tr) \<longrightarrow>
      stylize E cp sp sd = (Raised e, tr0 @ tr))
   \<and> (load_image E cp None = (Returned c, tr0) \<and> load_image E sp None = (Exited n, tr) \<longrightarrow>
      stylize E cp sp sd = (Exited 1, tr0 @ tr))
   \<and> (os_listdir E content_path = Inr (pre @ i # post) \<and>
      (\<forall>j\<in>set pre. fst (job E j) = Returned ()) \<and>
      load_image E (os_path_join content_path i) None = (Exited n, tr) \<longrightarrow>
      interpreter (main E) =
        (Exit_status 1, concat (map (\<lambda>j. snd (job E j)) pre) @ tr))
   \<and> (os_listdir E content_path = Inr (pre @ i # post) \<and>
      (\<forall>j\<in>set pre. fst (job E j) = Returned ()) \<and>
      load_image E (os_path_join content_path i) None = (Raised e, tr) \<and>
      \<not> isinstance e KeyboardInterrupt \<longrightarrow>
      interpreter (main E) =
        (Exit_status 1, concat (map (\<lambda>j. snd (job E j)) pre) @ tr @ [Print_traceback e]))"
proof -
  have handled: "load_image E path pp = (Exited 1, tr @ [Print_stderr (error_line e)])"
    if "load_image_try E path pp = (Raised e, tr)" and "isinstance e OSError" for e tr path pp
    using that by (simp add: load_image_def run_defs)
  have passed: "load_image E path pp = (Raised e, tr)"
    if "load_image_try E path pp = (Raised e, tr)" and "\<not> isinstance e OSError" for e tr path pp
    using that by (simp add: load_image_def)
  have kept: "load_image E path pp = load_image_try E path pp"
    if "\<forall>e. fst (load_image_try E path pp) \<noteq> Raised e" for path pp
  proof -
    obtain r t where run: "load_image_try E path pp = (r, t)"
      by (cases "load_image_try E path pp")
    with that show ?thesis
      by (cases r) (auto simp: load_image_def)
  qed
  have try_no_exit: "fst (load_image_try E path pp) \<noteq> Exited n" for path pp n
    by (auto simp: load_image_try_def prof_to_prof_def run_defs
        split: option.splits sum.splits if_splits prod.splits)
  have exits: "n = 1 \<and> (\<exists>e' tr'. isinstance e' OSError \<and>
        load_image_try E path pp = (Raised e', tr') \<and>
        snd (load_image E path pp) = tr' @ [Print_stderr (error_line e')])"
    if "fst (load_image E path pp) = Exited n" for path pp n
  proof (cases "load_image_try E path pp")
    case (Pair r t)
    show ?thesis
    proof (cases r)
      case (Raised e')
      with Pair that handled [of path pp e' t] passed [of path pp e' t] show ?thesis
        by (cases "isinstance e' OSError") auto
    next
      case (Returned x)
      with Pair that kept [of path pp] show ?thesis by simp
    next
      case (Exited m)
      with Pair try_no_exit [of path pp m] show ?thesis by simp
    qed
  qed
  have escapes: "\<not> isinstance e OSError" if "fst (load_image E path pp) = Raised e" for path pp e
  proof (cases "load_image_try E path pp")
    case (Pair r t)
    show ?thesis
    proof (cases r)
      case (Raised e')
      with Pair that handled [of path pp e' t] passed [of path pp e' t] show ?thesis
        by (cases "isinstance e' OSError") auto
    next
      case (Returned x)
      with Pair that kept [of path pp] show ?thesis by simp
    next
      case (Exited m)
      with Pair try_no_exit [of path pp m] show ?thesis by simp
    qed
  qed
  have open_fails: "load_image_try E path pp = (Raised e, [])" if "Image_open E path = Inl e"
    for path pp e
    using that by (simp add: load_image_try_def run_defs)
  have read_fails: "load_image_try E path (Some q) = (Raised e, [])"
    if "Image_open E path = Inr im" "info_icc_profile im = Some p"
      "Path_read_bytes E (path_str q) = Inl e" for path e
    using that by (simp add: load_image_try_def run_defs)
  have conv_fails: "load_image_try E path None =
      (Raised e, [Call_profileToProfile im p (srgb_profile E) ''RGB''])"
    if "Image_open E path = Inr im" "info_icc_profile im = Some p" "p \<noteq> srgb_profile E"
      "ImageCms_profileToProfile E im p (srgb_profile E) ''RGB'' = Inl e" for path e
    using that by (simp add: load_image_try_def prof_to_prof_def run_defs)
  have job_raise: "job E i = (Raised e, tr)"
    if "load_image E (os_path_join content_path i) None = (Raised e, tr)" for e tr
    using stylize_content_load_fails(1) [OF that] by (simp add: job_def)
  have job_exit: "job E i = (Exited 1, tr)"
    if "load_image E (os_path_join content_path i) None = (Exited n, tr)" for n tr
    using stylize_content_load_fails(2) [OF that] exits [of "os_path_join content_path i" None n]
      that by (simp add: job_def)
  have script_exit: "interpreter (main E) =
      (Exit_status 1, concat (map (\<lambda>j. snd (job E j)) pre) @ tr)"
    if "os_listdir E content_path = Inr (pre @ i # post)"
      "\<forall>j\<in>set pre. fst (job E j) = Returned ()"
      "load_image E (os_path_join content_path i) None = (Exited n, tr)" for n tr
    using main_stops [OF that(1,2)] job_exit [OF that(3)] by simp
  have script_raise: "interpreter (main E) =
      (Exit_status 1, concat (map (\<lambda>j. snd (job E j)) pre) @ tr @ [Print_traceback e])"
    if "os_listdir E content_path = Inr (pre @ i # post)"
      "\<forall>j\<in>set pre. fst (job E j) = Returned ()"
      "load_image E (os_path_join content_path i) None = (Raised e, tr)"
      "\<not> isinstance e KeyboardInterrupt" for e tr
    using main_stops [OF that(1,2)] job_raise [OF that(3)] that(4) by simp
  have exit_one: "n = 1" if "load_image E path pp = (Exited n, tr)" for path pp n tr
    using exits [of path pp n] that by simp
  have c1: "Image_open E path = Inl e \<and> isinstance e OSError \<longrightarrow>
      load_image E path pp = (Exited 1, [Print_stderr (error_line e)])"
  proof (intro impI, elim conjE)
    assume "Image_open E path = Inl e" "isinstance e OSError"
    then show "load_image E path pp = (Exited 1, [Print_stderr (error_line e)])"
      using handled [OF open_fails, of path e pp] by simp
  qed
  have c2: "Image_open E path = Inr im \<and> info_icc_profile im = Some p \<and>
      Path_read_bytes E (path_str q) = Inl e \<and> isinstance e OSError \<longrightarrow>
      load_image E path (Some q) = (Exited 1, [Print_stderr (error_line e)])"
  proof (intro impI, elim conjE)
    assume "Image_open E path = Inr im" "info_icc_profile im = Some p"
      "Path_read_bytes E (path_str q) = Inl e" "isinstance e OSError"
    then show "load_image E path (Some q) = (Exited 1, [Print_stderr (error_line e)])"
      using handled [OF read_fails, of path e] by simp
  qed
  have c3: "Image_open E path = Inr im \<and> info_icc_profile im = Some p \<and> p \<noteq> srgb_profile E \<and>
      ImageCms_profileToProfile E im p (srgb_profile E) ''RGB'' = Inl e \<and> isinstance e OSError \<longrightarrow>
      load_image E path None =
        (Exited 1,
         [Call_profileToProfile im p (srgb_profile E) ''RGB'', Print_stderr (error_line e)])"
  proof (intro impI, elim conjE)
    assume "Image_open E path = Inr im" "info_icc_profile im = Some p" "p \<noteq> srgb_profile E"
      "ImageCms_profileToProfile E im p (srgb_profile E) ''RGB'' = Inl e" "isinstance e OSError"
    then show "load_image E path None =
        (Exited 1,
         [Call_profileToProfile im p (srgb_profile E) ''RGB'', Print_stderr (error_line e)])"
      using handled [OF conv_fails, of path e] by simp
  qed
  have c4: "load_image_try E path pp = (Raised e, tr) \<and> isinstance e OSError \<longrightarrow>
      load_image E path pp = (Exited 1, tr @ [Print_stderr (error_line e)])"
    using handled [of path pp e tr] by blast
  have c5: "fst (load_image E path pp) = Raised e \<longrightarrow> \<not> isinstance e OSError"
    using escapes [of path pp e] by blast
  have c6: "fst (load_image E path pp) = Exited n \<longrightarrow> n = 1"
    using exits [of path pp n] by blast
  have c7: "fst (load_image E path pp) = Exited n \<longrightarrow>
      (\<exists>e' tr'. isinstance e' OSError \<and> load_image_try E path pp = (Raised e', tr') \<and>
         snd (load_image E path pp) = tr' @ [Print_stderr (error_line e')])"
    using exits [of path pp n] by blast
  have c8: "load_image_try E path pp = (Raised e, tr) \<and> \<not> isinstance e OSError \<longrightarrow>
      load_image E path pp = (Raised e, tr)"
    using passed [of path pp e tr] by blast
  have c9: "Image_open E path = Inr im \<and> info_icc_profile im = Some p \<and> p \<noteq> srgb_profile E \<and>
      ImageCms_profileToProfile E im p (srgb_profile E) ''RGB'' = Inl e \<and>
      \<not> isinstance e OSError \<longrightarrow>
      load_image E path None = (Raised e, [Call_profileToProfile im p (srgb_profile E) ''RGB''])"
  proof (intro impI, elim conjE)
    assume "Image_open E path = Inr im" "info_icc_profile im = Some p" "p \<noteq> srgb_profile E"
      "ImageCms_profileToProfile E im p (srgb_profile E) ''RGB'' = Inl e" "\<not> isinstance e OSError"
    then show "load_image E path None =
        (Raised e, [Call_profileToProfile im p (srgb_profile E) ''RGB''])"
      using passed [OF conv_fails, of path e] by simp
  qed
  have c10: "load_image E cp None = (Raised e, tr) \<longrightarrow> stylize E cp sp sd = (Raised e, tr)"
    using stylize_content_load_fails(1) [of E cp e tr sp sd] by blast
  have c11: "load_image E cp None = (Exited n, tr) \<longrightarrow> stylize E cp sp sd = (Exited 1, tr)"
  proof
    assume failed: "load_image E cp None = (Exited n, tr)"
    show "stylize E cp sp sd = (Exited 1, tr)"
      using stylize_content_load_fails(2) [OF failed, of sp sd] exit_one [OF failed] by simp
  qed
  have c12: "load_image E cp None = (Returned c, tr0) \<and> load_image E sp None = (Raised e, tr) \<longrightarrow>
      stylize E cp sp sd = (Raised e, tr0 @ tr)"
    using stylize_style_load_fails(1) [of E cp c tr0 sp e tr sd] by blast
  have c13: "load_image E cp None = (Returned c, tr0) \<and> load_image E sp None = (Exited n, tr) \<longrightarrow>
      stylize E cp sp sd = (Exited 1, tr0 @ tr)"
  proof (intro impI, elim conjE)
    assume ok: "load_image E cp None = (Returned c, tr0)"
      and failed: "load_image E sp None = (Exited n, tr)"
    show "stylize E cp sp sd = (Exited 1, tr0 @ tr)"
      using stylize_style_load_fails(2) [OF ok failed, of sd] exit_one [OF failed] by simp
  qed
  have c14: "os_listdir E content_path = Inr (pre @ i # post) \<and>
      (\<forall>j\<in>set pre. fst (job E j) = Returned ()) \<and>
      load_image E (os_path_join content_path i) None = (Exited n, tr) \<longrightarrow>
      interpreter (main E) =
        (Exit_status 1, concat (map (\<lambda>j. snd (job E j)) pre) @ tr)"
    using script_exit [of n tr] by blast
  have c15: "os_listdir E content_path = Inr (pre @ i # post) \<and>
      (\<forall>j\<in>set pre. fst (job E j) = Returned ()) \<and>
      load_image E (os_path_join content_path i) None = (Raised e, tr) \<and>
      \<not> isinstance e KeyboardInterrupt \<longrightarrow>
      interpreter (main E) =
        (Exit_status 1, concat (map (\<lambda>j. snd (job E j)) pre) @ tr @ [Print_traceback e])"
    using script_raise [of e tr] by blast
  show ?thesis
    by (intro conjI) (fact c1 c2 c3 c4 c5 c6 c7 c8 c9 c10 c11 c12 c13 c14 c15)+
qed

text \<open>The witness: a missing content file, a missing proofing profile, and a rejected
  transform, at the level of \<^verbatim>\<open>load_image\<close> and of the whole script.\<close>

theorem load_image_OSError_is_fatal_witness:
  "Image_open example_env ''missing.jpg'' =
     Inl (Exn FileNotFoundError ''[Errno 2] No such file or directory: missing.jpg'') \<and>
   isinstance (Exn FileNotFoundError ''[Errno 2] No such file or directory: missing.jpg'') OSError \<and>
   load_image example_env ''missing.jpg'' None =
     (Exited 1,
      [Print_stderr (CHR 0x1B # ''[31mFileNotFoundError:'' @ CHR 0x1B #
         ''[0m [Errno 2] No such file or directory: missing.jpg'')]) \<and>
   Path_read_bytes example_env (path_str ''missing.icc'') =
     Inl (Exn FileNotFoundError ''[Errno 2] No such file or directory: missing.icc'') \<and>
   load_image example_env ''adobe.jpg'' (Some ''missing.icc'') =
     (Exited 1,
      [Print_stderr (CHR 0x1B # ''[31mFileNotFoundError:'' @ CHR 0x1B #
         ''[0m [Errno 2] No such file or directory: missing.icc'')]) \<and>
   \<not> isinstance (Exn PyCMSError ''cannot build transform'') OSError \<and>
   load_image cms_failing_env ''adobe.jpg'' None =
     (Raised (Exn PyCMSError ''cannot build transform''),
      [Call_profileToProfile adobe_jpg adobe_bytes srgb_bytes ''RGB'']) \<and>
   interpreter (main cms_failing_env) =
     (Exit_status 1,
      [Call_profileToProfile adobe_jpg adobe_bytes srgb_bytes ''RGB'',
       Print_traceback (Exn PyCMSError ''cannot build transform'')]) \<and>
   interpreter (main (example_env\<lparr>os_listdir := \<lambda>d. Inr [''missing.jpg'']\<rparr>)) =
     (Exit_status 1,
      [Print_stderr (CHR 0x1B # ''[31mFileNotFoundError:'' @ CHR 0x1B #
         ''[0m [Errno 2] No such file or directory: /home/zjlab/xzz/datasets/Camera1/missing.jpg'')])"
proof -
  let ?e = "Exn FileNotFoundError ''[Errno 2] No such file or directory: missing.jpg''"
  let ?f = "Exn FileNotFoundError ''[Errno 2] No such file or directory: missing.icc''"
  let ?g = "Exn FileNotFoundError
    ''[Errno 2] No such file or directory: /home/zjlab/xzz/datasets/Camera1/missing.jpg''"
  let ?c = "Exn PyCMSError ''cannot build transform''"
  let ?call = "Call_profileToProfile adobe_jpg adobe_bytes srgb_bytes ''RGB''"
  let ?M = "example_env\<lparr>os_listdir := \<lambda>d. Inr [''missing.jpg'']\<rparr>"
  let ?long = "''/home/zjlab/xzz/datasets/Camera1/adobe.jpg''"
  have missing: "Image_open example_env ''missing.jpg'' = Inl ?e" "isinstance ?e OSError"
    by (simp_all add: example_env_def isinstance_def)
  have unread: "Image_open example_env ''adobe.jpg'' = Inr adobe_jpg"
    "info_icc_profile adobe_jpg = Some adobe_bytes"
    "Path_read_bytes example_env (path_str ''missing.icc'') = Inl ?f" "isinstance ?f OSError"
    by (simp_all add: example_defs isinstance_def path_defs)
  have rejected: "Image_open cms_failing_env ''adobe.jpg'' = Inr adobe_jpg"
    "adobe_bytes \<noteq> srgb_profile cms_failing_env"
    "ImageCms_profileToProfile cms_failing_env adobe_jpg adobe_bytes
       (srgb_profile cms_failing_env) ''RGB'' = Inl ?c"
    "\<not> isinstance ?c OSError" "\<not> isinstance ?c KeyboardInterrupt"
    "srgb_profile cms_failing_env = srgb_bytes"
    by (simp_all add: example_defs isinstance_def)
  have listed: "os_listdir cms_failing_env content_path = Inr ([] @ ''adobe.jpg'' # [])"
    "os_path_join content_path ''adobe.jpg'' = ?long"
    "os_listdir ?M content_path = Inr ([] @ ''missing.jpg'' # [])"
    by (simp_all add: example_defs content_path_def os_path_join_def)
  have long_load: "load_image cms_failing_env (os_path_join content_path ''adobe.jpg'') None =
      (Raised ?c, [?call])"
    unfolding listed(2) by (simp add: eval_defs)
  have gone: "load_image ?M (os_path_join content_path ''missing.jpg'') None =
      (Exited 1, [Print_stderr (error_line ?g)])"
    by (simp add: eval_defs content_path_def os_path_join_def)
  have line: "error_line ?e = CHR 0x1B # ''[31mFileNotFoundError:'' @ CHR 0x1B #
         ''[0m [Errno 2] No such file or directory: missing.jpg''"
    "error_line ?f = CHR 0x1B # ''[31mFileNotFoundError:'' @ CHR 0x1B #
         ''[0m [Errno 2] No such file or directory: missing.icc''"
    "error_line ?g = CHR 0x1B # ''[31mFileNotFoundError:'' @ CHR 0x1B #
         ''[0m [Errno 2] No such file or directory: /home/zjlab/xzz/datasets/Camera1/missing.jpg''"
    by (simp_all add: error_line_def)
  note at_open = load_image_OSError_is_fatal [where E = example_env and path = "''missing.jpg''"
      and e = ?e and pp = None and im = adobe_jpg and p = adobe_bytes and q = "''missing.icc''"
      and tr = "[]" and n = 1 and cp = "''missing.jpg''" and sp = "''style.png''"
      and sd = "''out.jpg''" and c = adobe_jpg and ?tr0.0 = "[]" and pre = "[]"
      and i = "''adobe.jpg''" and post = "[]"]
  note at_read = load_image_OSError_is_fatal [where E = example_env and path = "''adobe.jpg''"
      and e = ?f and pp = None and im = adobe_jpg and p = adobe_bytes and q = "''missing.icc''"
      and tr = "[]" and n = 1 and cp = "''missing.jpg''" and sp = "''style.png''"
      and sd = "''out.jpg''" and c = adobe_jpg and ?tr0.0 = "[]" and pre = "[]"
      and i = "''adobe.jpg''" and post = "[]"]
  note at_conv = load_image_OSError_is_fatal [where E = cms_failing_env
      and path = "''adobe.jpg''"
      and e = ?c and pp = None and im = adobe_jpg and p = adobe_bytes and q = "''missing.icc''"
      and tr = "[?call]" and n = 1 and cp = "''missing.jpg''" and sp = "''style.png''"
      and sd = "''out.jpg''" and c = adobe_jpg and ?tr0.0 = "[]" and pre = "[]"
      and i = "''adobe.jpg''" and post = "[]"]
  note at_exit = load_image_OSError_is_fatal [where E = ?M and path = "''missing.jpg''"
      and e = ?g and pp = None and im = adobe_jpg and p = adobe_bytes and q = "''missing.icc''"
      and tr = "[Print_stderr (error_line ?g)]" and n = 1 and cp = "''missing.jpg''"
      and sp = "''style.png''" and sd = "''out.jpg''" and c = adobe_jpg and ?tr0.0 = "[]"
      and pre = "[]" and i = "''missing.jpg''" and post = "[]"]
  note c2 = conjunct2
  have fatal_open: "load_image example_env ''missing.jpg'' None =
      (Exited 1, [Print_stderr (error_line ?e)])"
    by (rule at_open [THEN conjunct1, THEN mp]) (intro conjI missing)
  have fatal_read: "load_image example_env ''adobe.jpg'' (Some ''missing.icc'') =
      (Exited 1, [Print_stderr (error_line ?f)])"
    by (rule at_read [THEN c2, THEN conjunct1, THEN mp]) (intro conjI unread)
  have escaped: "load_image cms_failing_env ''adobe.jpg'' None =
      (Raised ?c, [Call_profileToProfile adobe_jpg adobe_bytes (srgb_profile cms_failing_env) ''RGB''])"
    by (rule at_conv [THEN c2, THEN c2, THEN c2, THEN c2, THEN c2, THEN c2, THEN c2, THEN c2,
          THEN conjunct1, THEN mp])
      (intro conjI rejected(1) unread(2) rejected(2) rejected(3) rejected(4))
  have nothing_before: "\<forall>j\<in>set []. fst (job E j) = Returned ()" for E :: "out_image option env"
    by simp
  have traced: "interpreter (main cms_failing_env) =
      (Exit_status 1,
       concat (map (\<lambda>j. snd (job cms_failing_env j)) []) @ [?call] @ [Print_traceback ?c])"
    by (rule at_conv [THEN c2, THEN c2, THEN c2, THEN c2, THEN c2, THEN c2, THEN c2, THEN c2,
          THEN c2, THEN c2, THEN c2, THEN c2, THEN c2, THEN c2, THEN mp])
      (intro conjI listed(1) nothing_before long_load rejected(5))
  have exited: "interpreter (main ?M) =
      (Exit_status 1, concat (map (\<lambda>j. snd (job ?M j)) []) @ [Print_stderr (error_line ?g)])"
    by (rule at_exit [THEN c2, THEN c2, THEN c2, THEN c2, THEN c2, THEN c2, THEN c2, THEN c2,
          THEN c2, THEN c2, THEN c2, THEN c2, THEN c2, THEN conjunct1, THEN mp])
      (intro conjI listed(3) nothing_before gone)
  have traced': "interpreter (main cms_failing_env) = (Exit_status 1, [?call, Print_traceback ?c])"
    unfolding traced by simp
  have exited': "interpreter (main ?M) = (Exit_status 1, [Print_stderr (error_line ?g)])"
    unfolding exited by simp
  show ?thesis
    unfolding line [symmetric]
    by (intro conjI missing unread(3) rejected(4) fatal_open fatal_read traced' exited'
        escaped [unfolded rejected(6)])
qed

section \<open>Saving\<close>

text \<open>
  Claim C4.  \<^verbatim>\<open>save_image\<close> looks at the lower-cased suffix of the destination only, and
  every write carries the canonical profile.  For a Pillow image there is exactly one call
  of \<^verbatim>\<open>Image.save\<close>: with the profile, quality 95 and subsampling 0 (4:4:4) for
  \<^verbatim>\<open>.jpg\<close> and \<^verbatim>\<open>.jpeg\<close>; with the profile and quality 95 for \<^verbatim>\<open>.webp\<close>; with the profile
  alone for any other suffix.  For a numpy array and \<^verbatim>\<open>.tif\<close> or \<^verbatim>\<open>.tiff\<close> the TIFF writer
  is opened and, when that succeeds, there is exactly one call of \<^verbatim>\<open>writer.save\<close>, with
  photometric \<^verbatim>\<open>rgb\<close>, resolution (72, 72) and the single extra tag \<^verbatim>\<open>InterColorProfile\<close>
  of type \<^verbatim>\<open>BYTE\<close> holding the canonical profile bytes; when the writer cannot be opened
  nothing is saved.
\<close>

theorem save_image_encoder_settings:
  "(lower (path_suffix path) \<in> {''.jpg'', ''.jpeg''} \<longrightarrow>
      writes (snd (save_image E path (PIL_Image img))) =
        [Call_Image_save (path_str path) img
           [(''icc_profile'', Bytes_val (srgb_profile E)), (''quality'', Int_val 95),
            (''subsampling'', Int_val 0)]])
   \<and> (lower (path_suffix path) = ''.webp'' \<longrightarrow>
      writes (snd (save_image E path (PIL_Image img))) =
        [Call_Image_save (path_str path) img
           [(''icc_profile'', Bytes_val (srgb_profile E)), (''quality'', Int_val 95)]])
   \<and> (lower (path_suffix path) \<notin> {''.jpg'', ''.jpeg'', ''.webp''} \<longrightarrow>
      writes (snd (save_image E path (PIL_Image img))) =
        [Call_Image_save (path_str path) img [(''icc_profile'', Bytes_val (srgb_profile E))]])
   \<and> (lower (path_suffix path) \<in> {''.tif'', ''.tiff''} \<longrightarrow>
      writes (snd (save_image E path (Ndarray arr))) =
        (if TiffWriter_open E (path_str path) = None
         then [Call_TiffWriter_save (path_str path) arr ''rgb'' (72, 72)
                 [(''InterColorProfile'', BYTE, length (srgb_profile E), srgb_profile E, False)]]
         else []))"
proof -
  have img: "writes (snd (save_image E path (PIL_Image img))) = writes (snd (save_pil E path img))"
    by (simp add: save_image_def snd_bind snd_emit fst_emit writes_def)
  have arr: "lower (path_suffix path) \<in> {''.tif'', ''.tiff''} \<Longrightarrow>
      writes (snd (save_image E path (Ndarray arr))) = writes (snd (save_tiff E path arr))"
    by (simp add: save_image_def snd_bind snd_emit fst_emit writes_def)
  show ?thesis
    using arr by (simp add: img writes_save_pil writes_save_tiff)
qed

theorem save_image_encoder_settings_witness:
  "lower (path_suffix ''out/Photo.JPG'') = ''.jpg'' \<and>
   writes (snd (save_image example_env ''out/Photo.JPG'' (PIL_Image content_jpg))) =
     [Call_Image_save ''out/Photo.JPG'' content_jpg
        [(''icc_profile'', Bytes_val srgb_bytes), (''quality'', Int_val 95),
         (''subsampling'', Int_val 0)]] \<and>
   lower (path_suffix ''scan.Tiff'') = ''.tiff'' \<and>
   TiffWriter_open example_env ''scan.Tiff'' = None \<and>
   writes (snd (save_image example_env ''scan.Tiff'' (Ndarray [1, 2, 3]))) =
     [Call_TiffWriter_save ''scan.Tiff'' [1, 2, 3] ''rgb'' (72, 72)
        [(''InterColorProfile'', BYTE, 4, srgb_bytes, False)]] \<and>
   lower (path_suffix ''out/result.png'') = ''.png'' \<and>
   writes (snd (save_image example_env ''out/result.png'' (PIL_Image content_jpg))) =
     [Call_Image_save ''out/result.png'' content_jpg [(''icc_profile'', Bytes_val srgb_bytes)]]"
proof -
  have jpg: "lower (path_suffix ''out/Photo.JPG'') = ''.jpg''"
    and jpg_str: "path_str ''out/Photo.JPG'' = ''out/Photo.JPG''"
    by (simp_all add: path_defs)
  have tiff: "lower (path_suffix ''scan.Tiff'') = ''.tiff''"
    and tiff_str: "path_str ''scan.Tiff'' = ''scan.Tiff''"
    by (simp_all add: path_defs)
  have png: "lower (path_suffix ''out/result.png'') = ''.png''"
    and png_str: "path_str ''out/result.png'' = ''out/result.png''"
    by (simp_all add: path_defs)
  have srgb: "srgb_profile example_env = srgb_bytes" and len: "length srgb_bytes = 4"
    and opened: "TiffWriter_open example_env ''scan.Tiff'' = None"
    by (simp_all add: example_env_def srgb_bytes_def)
  note settings = save_image_encoder_settings [where E = example_env and img = content_jpg
      and arr = "[1, 2, 3]"]
  show ?thesis
    using settings [where path = "''out/Photo.JPG''"] settings [where path = "''scan.Tiff''"]
      settings [where path = "''out/result.png''"]
    unfolding jpg jpg_str tiff tiff_str png png_str srgb len opened
    by simp
qed

text \<open>
  Claim C5, as stated, fails: the exception for an unsupported combination is a
  \<^verbatim>\<open>ValueError\<close> with one fixed message.  For a numpy array and \<^verbatim>\<open>out.png\<close> the message
  contains neither the extension nor the kind of the object, and it is the same for another
  object and another extension.
\<close>

theorem save_image_unsupported_message_is_fixed:
  "save_image example_env ''out.png'' (Ndarray [1, 2, 3]) =
     (Raised (Exn ValueError ''Unsupported combination of image type and extension''),
      [Tqdm_write ''Writing image to out.png.'']) \<and>
   \<not> sublist ''png'' ''Unsupported combination of image type and extension'' \<and>
   \<not> sublist ''array'' ''Unsupported combination of image type and extension'' \<and>
   fst (save_image example_env ''out.bmp'' Other_object) =
     fst (save_image example_env ''out.png'' (Ndarray [1, 2, 3]))"
proof -
  have "\<not> sublist ''png'' ''Unsupported combination of image type and extension''"
    by code_simp
  moreover have "\<not> sublist ''array'' ''Unsupported combination of image type and extension''"
    by code_simp
  ultimately show ?thesis
    by (simp add: save_image_def unsupported_def run_defs path_defs)
qed

text \<open>
  Claim C5, amended.  For every object that is not a Pillow image, and is not a numpy
  array bound for a \<^verbatim>\<open>.tif\<close> or \<^verbatim>\<open>.tiff\<close> destination, \<^verbatim>\<open>save_image\<close> announces the write
  and raises \<^verbatim>\<open>ValueError\<close> with the fixed message
  \<^verbatim>\<open>Unsupported combination of image type and extension\<close>; nothing is written.
\<close>

theorem save_image_unsupported_combination:
  assumes "\<forall>im. obj \<noteq> PIL_Image im"
    and "\<not> ((\<exists>a. obj = Ndarray a) \<and> lower (path_suffix path) \<in> {''.tif'', ''.tiff''})"
  shows "save_image E path obj =
     (Raised (Exn ValueError ''Unsupported combination of image type and extension''),
      [Tqdm_write (''Writing image to '' @ path_str path @ ''.'')])
    \<and> writes (snd (save_image E path obj)) = []"
  using assms
  by (cases obj) (auto simp: save_image_def unsupported_def run_defs writes_def)

theorem save_image_unsupported_combination_witness:
  "(\<forall>im. Ndarray [1, 2, 3] \<noteq> PIL_Image im) \<and>
   lower (path_suffix ''out/result.jpeg'') \<notin> {''.tif'', ''.tiff''} \<and>
   save_image example_env ''out/result.jpeg'' (Ndarray [1, 2, 3]) =
     (Raised (Exn ValueError ''Unsupported combination of image type and extension''),
      [Tqdm_write ''Writing image to out/result.jpeg.''])"
proof -
  have kind: "\<forall>im. Ndarray [1, 2, 3] \<noteq> PIL_Image im"
    by simp
  have ext: "lower (path_suffix ''out/result.jpeg'') \<notin> {''.tif'', ''.tiff''}"
    and str: "path_str ''out/result.jpeg'' = ''out/result.jpeg''"
    by (simp_all add: path_defs)
  from ext have combo: "\<not> ((\<exists>a. Ndarray [1, 2, 3] = Ndarray a) \<and>
      lower (path_suffix ''out/result.jpeg'') \<in> {''.tif'', ''.tiff''})"
    by blast
  show ?thesis
    using kind ext save_image_unsupported_combination [OF kind combo, of example_env]
    unfolding str by simp
qed

section \<open>The job\<close>

text \<open>
  Claim C9.  Whenever \<^verbatim>\<open>stylize\<close> calls the stylizer, the content image it passes is the
  one \<^verbatim>\<open>load_image\<close> returned for the content path, and \<open>end_scale\<close> is the larger of that
  image's width and height; \<^verbatim>\<open>get_safe_scale\<close> is not involved.  For the 2000 x 1000
  content image of the example, \<open>end_scale\<close> is 2000.
\<close>

theorem stylize_end_scale_is_largest_side:
  "\<forall>c ss n. Call_stylize c ss n \<in> set (snd (stylize E cp sp sd)) \<longrightarrow>
     fst (load_image E cp None) = Returned c \<and>
     n = int (max (fst (im_size c)) (snd (im_size c)))"
proof (intro allI impI)
  fix c ss n
  assume "Call_stylize c ss n \<in> set (snd (stylize E cp sp sd))"
  then have "Call_stylize c ss n \<in> set (filter is_stylize_call (snd (stylize E cp sp sd)))"
    by simp
  then obtain st tr where "stylize_setup E cp sp = (Returned (c, ss, n, st), tr)"
    unfolding stylize_calls
    by (cases "stylize_setup E cp sp"; cases "fst (stylize_setup E cp sp)") auto
  then show "fst (load_image E cp None) = Returned c \<and>
     n = int (max (fst (im_size c)) (snd (im_size c)))"
    by (rule stylize_setup_result)
qed

theorem stylize_end_scale_is_largest_side_witness:
  "im_size content_jpg = (2000, 1000) \<and>
   Call_stylize content_jpg [style_png\<lparr>im_mode := ''RGB''\<rparr>] 2000
     \<in> set (snd (stylize example_env ''content.jpg'' ''style.png'' ''out/result.jpg'')) \<and>
   fst (load_image example_env ''content.jpg'' None) = Returned content_jpg \<and>
   (2000 :: int) = int (max (fst (im_size content_jpg)) (snd (im_size content_jpg)))"
proof -
  have called: "Call_stylize content_jpg [style_png\<lparr>im_mode := ''RGB''\<rparr>] 2000
     \<in> set (snd (stylize example_env ''content.jpg'' ''style.png'' ''out/result.jpg''))"
    by (simp add: eval_defs str_nat.simps)
  have dims: "im_size content_jpg = (2000, 1000)"
    by (simp add: content_jpg_def)
  note largest = stylize_end_scale_is_largest_side [of example_env "''content.jpg''"
      "''style.png''" "''out/result.jpg''", rule_format, OF called]
  show ?thesis
    using dims called largest by (intro conjI) (erule conjunct1 conjunct2 | assumption)+
qed

text \<open>
  Claim C7.  When the stylizer call is left by \<^verbatim>\<open>KeyboardInterrupt\<close>, the exception is
  dropped and the result is fetched.  If it is \<open>None\<close>, \<^verbatim>\<open>stylize\<close> returns normally and
  \<^verbatim>\<open>save_image\<close> is not invoked.  If it is an image, \<^verbatim>\<open>save_image\<close> is invoked exactly
  once, with the destination and that image, and \<^verbatim>\<open>stylize\<close> ends the way that invocation
  ends (so it returns normally when the write succeeds).
\<close>

theorem stylize_after_cancellation:
  assumes "stylize_setup E cp sp = (Returned (c, ss, n, st), tr0)"
    and "st_stylize E st c ss n = (Some e, st')"
    and "isinstance e KeyboardInterrupt"
    and "st_get_image E st' ''pil'' = Inr res"
  shows "(res = None \<longrightarrow>
            stylize E cp sp sd = (Returned (), tr0 @ [Call_stylize c ss n]) \<and>
            filter is_save_start (snd (stylize E cp sp sd)) = [])
       \<and> (\<forall>img. res = Some img \<longrightarrow>
            stylize E cp sp sd =
              (fst (save_image E sd img), tr0 @ Call_stylize c ss n # snd (save_image E sd img)) \<and>
            length (filter is_save_start (snd (stylize E cp sp sd))) = 1)"
proof -
  have tr0: "filter is_save_start tr0 = []"
    using filter_quiet(1) [OF stylize_setup_quiet, of E cp sp] assms(1) by simp
  have none: "stylize E cp sp sd = (Returned (), tr0 @ [Call_stylize c ss n])" if "res = None"
    using assms that by (simp add: stylize_def stylize_run_def run_defs)
  have some: "stylize E cp sp sd =
      (fst (save_image E sd img), tr0 @ Call_stylize c ss n # snd (save_image E sd img))"
    if "res = Some img" for img
    using assms that by (simp add: stylize_def stylize_run_def run_defs split: prod.splits)
  show ?thesis
    using none some tr0 by (auto simp: save_image_one_start)
qed

text \<open>The witness interrupts the stylizer once with a partial result and once with none.\<close>

theorem stylize_after_cancellation_witness:
  "stylize (cancelled_env (Some (PIL_Image style_png))) ''content.jpg'' ''style.png''
      ''out/result.jpg'' =
     (Returned (),
      [Print_stdout ''Using devices: cpu'', Print_stdout ''CPU threads: 8'',
       Call_manual_seed 0, Print_stdout ''Loading model...'',
       Call_stylize content_jpg [style_png\<lparr>im_mode := ''RGB''\<rparr>] 2000,
       Tqdm_write ''Writing image to out/result.jpg.'',
       Call_Image_save ''out/result.jpg'' style_png
         [(''icc_profile'', Bytes_val srgb_bytes), (''quality'', Int_val 95),
          (''subsampling'', Int_val 0)]]) \<and>
   stylize (cancelled_env None) ''content.jpg'' ''style.png'' ''out/result.jpg'' =
     (Returned (),
      [Print_stdout ''Using devices: cpu'', Print_stdout ''CPU threads: 8'',
       Call_manual_seed 0, Print_stdout ''Loading model...'',
       Call_stylize content_jpg [style_png\<lparr>im_mode := ''RGB''\<rparr>] 2000])"
proof -
  let ?pre = "[Print_stdout ''Using devices: cpu'', Print_stdout ''CPU threads: 8'',
      Call_manual_seed 0, Print_stdout ''Loading model...'']"
  let ?ss = "[style_png\<lparr>im_mode := ''RGB''\<rparr>]"
  let ?e = "Exn KeyboardInterrupt []"
  have prepared: "stylize_setup (cancelled_env res) ''content.jpg'' ''style.png'' =
      (Returned (content_jpg, ?ss, 2000, None), ?pre)" for res
    by (simp add: eval_defs str_nat.simps)
  have interrupted: "st_stylize (cancelled_env res) None content_jpg ?ss 2000 = (Some ?e, res)"
    for res
    by (simp add: example_defs)
  have cancel: "isinstance ?e KeyboardInterrupt"
    by (simp add: isinstance_def)
  have fetched: "st_get_image (cancelled_env res) res ''pil'' = Inr res" for res
    by (simp add: example_defs)
  have saved: "save_image (cancelled_env (Some (PIL_Image style_png))) ''out/result.jpg''
      (PIL_Image style_png) =
     (Returned (),
      [Tqdm_write ''Writing image to out/result.jpg.'',
       Call_Image_save ''out/result.jpg'' style_png
         [(''icc_profile'', Bytes_val srgb_bytes), (''quality'', Int_val 95),
          (''subsampling'', Int_val 0)]])"
    by (simp add: eval_defs)
  show ?thesis
    using stylize_after_cancellation [OF prepared interrupted cancel fetched,
        of "Some (PIL_Image style_png)" "''out/result.jpg''"]
      stylize_after_cancellation [OF prepared interrupted cancel fetched,
        of None "''out/result.jpg''"]
    by (simp add: saved)
qed

end
